theory Spec2Isabelle
  imports Main "HOL-Library.Word"
begin

unbundle bit_operations_syntax

section \<open>The type model read by the translator\<close>

text \<open>
  The translator of \<^verbatim>\<open>src/type-translator.ts\<close> walks objects owned by the TypeScript
  compiler. Objects are compared by identity (\<^verbatim>\<open>===\<close>, \<^verbatim>\<open>indexOf\<close>, keys of a
  \<^verbatim>\<open>Map\<close>), and the type graph may be cyclic, so a type and a symbol are addresses
  into the checker's store.
\<close>

type_synonym tid = nat
type_synonym sid = nat

text \<open>
  \<^verbatim>\<open>ts.Symbol\<close>. A declaration is represented by the \<^verbatim>\<open>fileName\<close> of its source
  file, the only thing the translator reads from it; \<^verbatim>\<open>declarations\<close> may be
  \<^verbatim>\<open>undefined\<close>. \<^verbatim>\<open>members\<close> lists the member table in the enumeration order of
  \<^verbatim>\<open>Object.keys\<close>, each key with the member symbol stored under it.
\<close>

record tsSymbol =
  symName :: string
  symFlags :: "32 word"
  declarations :: "string list option"
  members :: "(string \<times> sid) list option"

text \<open>\<^verbatim>\<open>ts.Signature\<close>: the parameter symbols and the return type.\<close>

record tsSignature =
  parameters :: "sid list"
  returnType :: tid

text \<open>
  \<^verbatim>\<open>ts.Type\<close> with the fields of its subtypes \<^verbatim>\<open>ObjectType\<close> (\<^verbatim>\<open>objectFlags\<close>),
  \<^verbatim>\<open>TypeReference\<close> (\<^verbatim>\<open>target\<close>, \<^verbatim>\<open>typeArguments\<close>, the latter possibly
  \<^verbatim>\<open>undefined\<close>) and \<^verbatim>\<open>UnionType\<close> (\<^verbatim>\<open>types\<close>). A type that is not an object
  type has no \<^verbatim>\<open>objectFlags\<close>, which every test \<^verbatim>\<open>objectFlags & flag\<close> reads as 0.
\<close>

record tsType =
  flags :: "32 word"
  symbol :: "sid option"
  objectFlags :: "32 word"
  target :: tid
  typeArguments :: "tid list option"
  types :: "tid list"

datatype signatureKind = Call | Construct
datatype indexKind = String | Number

text \<open>
  The calls the symbol display builder makes on the \<^verbatim>\<open>ts.SymbolWriter\<close> that
  \<^verbatim>\<open>symbolToString\<close> hands to it.
\<close>

datatype writerCall =
    WriteKeyword string
  | WriteOperator string
  | WritePunctuation string
  | WriteSpace string
  | WriteStringLiteral string
  | WriteParameter string
  | WriteProperty string
  | WriteSymbol string
  | WriteLine
  | IncreaseIndent
  | DecreaseIndent
  | Clear
  | TrackSymbol sid
  | ReportInaccessibleThisError

text \<open>
  \<^verbatim>\<open>ts.TypeChecker\<close>, with the lookup node of the translator fixed: the store of
  types and symbols, and the queries the translator makes.
\<close>

record typeChecker =
  typeAt :: "tid \<Rightarrow> tsType"
  symbolAt :: "sid \<Rightarrow> tsSymbol"
  getTypeOfSymbolAtLocation :: "sid \<Rightarrow> tid"
  getSignaturesOfType :: "tid \<Rightarrow> signatureKind \<Rightarrow> tsSignature list"
  getIndexTypeOfType :: "tid \<Rightarrow> indexKind \<Rightarrow> tid option"
  buildSymbolDisplay :: "sid \<Rightarrow> writerCall list"

subsection \<open>Flag constants\<close>

text \<open>
  The members of the compiler's \<^verbatim>\<open>ts.TypeFlags\<close>, \<^verbatim>\<open>ts.ObjectFlags\<close> and
  \<^verbatim>\<open>ts.SymbolFlags\<close> enums that the translator names. Each enum numbers its flags
  by successive bits, in the order in which \<^verbatim>\<open>typeToDebugString\<close> and
  \<^verbatim>\<open>symbolToDebugString\<close> list them; \<^verbatim>\<open>Value\<close> is the compiler's union of the
  flags of symbols that are values (the two kinds of variable, Property, EnumMember,
  Function, Class, the two kinds of enum, ValueModule, Method and the two accessors).
\<close>

definition TypeFlags_Any :: "32 word" where "TypeFlags_Any = 1"
definition TypeFlags_String :: "32 word" where "TypeFlags_String = 2"
definition TypeFlags_Number :: "32 word" where "TypeFlags_Number = 4"
definition TypeFlags_Boolean :: "32 word" where "TypeFlags_Boolean = 8"
definition TypeFlags_Enum :: "32 word" where "TypeFlags_Enum = 16"
definition TypeFlags_StringLiteral :: "32 word" where "TypeFlags_StringLiteral = 32"
definition TypeFlags_NumberLiteral :: "32 word" where "TypeFlags_NumberLiteral = 64"
definition TypeFlags_BooleanLiteral :: "32 word" where "TypeFlags_BooleanLiteral = 128"
definition TypeFlags_EnumLiteral :: "32 word" where "TypeFlags_EnumLiteral = 256"
definition TypeFlags_ESSymbol :: "32 word" where "TypeFlags_ESSymbol = 512"
definition TypeFlags_Void :: "32 word" where "TypeFlags_Void = 1024"
definition TypeFlags_Undefined :: "32 word" where "TypeFlags_Undefined = 2048"
definition TypeFlags_Null :: "32 word" where "TypeFlags_Null = 4096"
definition TypeFlags_Never :: "32 word" where "TypeFlags_Never = 8192"
definition TypeFlags_TypeParameter :: "32 word" where "TypeFlags_TypeParameter = 16384"
definition TypeFlags_Object :: "32 word" where "TypeFlags_Object = 32768"
definition TypeFlags_Union :: "32 word" where "TypeFlags_Union = 65536"
definition TypeFlags_Intersection :: "32 word" where "TypeFlags_Intersection = 131072"
definition TypeFlags_Index :: "32 word" where "TypeFlags_Index = 262144"
definition TypeFlags_IndexedAccess :: "32 word" where "TypeFlags_IndexedAccess = 524288"

definition ObjectFlags_Class :: "32 word" where "ObjectFlags_Class = 1"
definition ObjectFlags_Interface :: "32 word" where "ObjectFlags_Interface = 2"
definition ObjectFlags_Reference :: "32 word" where "ObjectFlags_Reference = 4"
definition ObjectFlags_Tuple :: "32 word" where "ObjectFlags_Tuple = 8"
definition ObjectFlags_Anonymous :: "32 word" where "ObjectFlags_Anonymous = 16"

definition SymbolFlags_Function :: "32 word" where "SymbolFlags_Function = 16"
definition SymbolFlags_TypeLiteral :: "32 word" where "SymbolFlags_TypeLiteral = 2048"
definition SymbolFlags_Method :: "32 word" where "SymbolFlags_Method = 8192"
definition SymbolFlags_Value :: "32 word" where "SymbolFlags_Value = 107455"

section \<open>The translator instance and its effects\<close>

text \<open>
  The constructor arguments of \<^verbatim>\<open>TypeTranslator\<close>: the checker (with the node), the
  optional \<^verbatim>\<open>pathBlackList\<close> and the \<^verbatim>\<open>symbolsToAliasedNames\<close> map.
\<close>

record TypeTranslator =
  typeChecker :: typeChecker
  pathBlackList :: "string set option"
  symbolsToAliasedNames :: "sid \<Rightarrow> string option"

text \<open>
  The messages passed to \<^verbatim>\<open>warn\<close>. The method does nothing by default and the caller
  may overwrite it, so the model records every call. A constructor stands for the text
  of the message and carries what the text is built from.
\<close>

datatype warning =
    ShouldNotEmitNever
  | UnhandledTypeFlags "32 word"
  | ClassHasNoSymbol
  | InterfaceHasNoSymbol
  | TypeSymbolConflict string
  | AnonymousTypeHasNoSymbol
  | UnhandledAnonymousType
  | UnhandledType tid
  | TypeLiteralHasNoSymbol
  | UnknownIndexKeyType
  | UnhandledTypeLiteral
  | SymbolHasNoDeclarations

text \<open>The two \<^verbatim>\<open>throw new Error\<close> of the translator.\<close>

datatype error =
    UnknownTypeFlags "32 word"
  | ReferenceLoop tid

text \<open>
  What one instance mutates: the private \<^verbatim>\<open>seenTypes\<close> array, and the calls of
  \<^verbatim>\<open>warn\<close> made so far.
\<close>

record tstate =
  seenTypes :: "tid list"
  warnings :: "warning list"

text \<open>
  A method of the translator maps the state to \<^verbatim>\<open>None\<close> when the recursion does not
  come back within the fuel given, and otherwise to the state it leaves together with
  the value returned (\<open>Inr\<close>) or the error thrown (\<open>Inl\<close>). A throw keeps the mutations
  made before it.
\<close>

type_synonym 'a comp = "tstate \<Rightarrow> ((error + 'a) \<times> tstate) option"

definition ret :: "'a \<Rightarrow> 'a comp" where
  "ret x s = Some (Inr x, s)"

definition throw :: "error \<Rightarrow> 'a comp" where
  "throw e s = Some (Inl e, s)"

definition andThen :: "'a comp \<Rightarrow> ('a \<Rightarrow> 'b comp) \<Rightarrow> 'b comp" where
  "andThen m f s =
     (case m s of
        None \<Rightarrow> None
      | Some (Inl e, s') \<Rightarrow> Some (Inl e, s')
      | Some (Inr x, s') \<Rightarrow> f x s')"

definition warn :: "warning \<Rightarrow> unit comp" where
  "warn msg s = Some (Inr (), s\<lparr>warnings := warnings s @ [msg]\<rparr>)"

text \<open>\<^verbatim>\<open>xs.map(f)\<close> for an \<^verbatim>\<open>f\<close> with effects: left to right, a throw ends it.\<close>

fun mapM :: "('a \<Rightarrow> 'b comp) \<Rightarrow> 'a list \<Rightarrow> 'b list comp" where
  "mapM f [] s = ret [] s"
| "mapM f (x # xs) s =
     andThen (f x) (\<lambda>y. andThen (mapM f xs) (\<lambda>ys. ret (y # ys))) s"

text \<open>\<^verbatim>\<open>Array.prototype.join\<close> on an array of strings.\<close>

fun join :: "string \<Rightarrow> string list \<Rightarrow> string" where
  "join sep [] = []"
| "join sep [x] = x"
| "join sep (x # y # ys) = x @ sep @ join sep (y # ys)"

text \<open>\<^verbatim>\<open>Array.prototype.indexOf\<close>: the first index of the element, or -1.\<close>

fun indexOf :: "'a list \<Rightarrow> 'a \<Rightarrow> int" where
  "indexOf [] x = -1"
| "indexOf (y # ys) x =
     (if y = x then 0 else (let i = indexOf ys x in if i = -1 then -1 else i + 1))"

text \<open>
  \<^verbatim>\<open>Array.prototype.filter\<close> with a callback that reads the element and its index;
  the first argument is the index of the head of the list.
\<close>

fun filterFrom :: "nat \<Rightarrow> ('a \<Rightarrow> nat \<Rightarrow> bool) \<Rightarrow> 'a list \<Rightarrow> 'a list" where
  "filterFrom i p [] = []"
| "filterFrom i p (x # xs) =
     (if p x i then x # filterFrom (Suc i) p xs else filterFrom (Suc i) p xs)"

section \<open>Helpers outside the class\<close>

text \<open>
  \<^verbatim>\<open>isBuiltinLibDTS\<close>: the file name matches \<^verbatim>\<open>/\blib\.(?:[^/]+\.)?d\.ts$/\<close>. A match
  starts at a position not preceded by a word character, reads \<^verbatim>\<open>lib.\<close>, and then
  either \<^verbatim>\<open>d.ts\<close> or a non-empty run without \<^verbatim>\<open>/\<close> followed by \<^verbatim>\<open>.d.ts\<close>, up to the
  end of the name.
\<close>

definition isWordChar :: "char \<Rightarrow> bool" where
  "isWordChar c =
     (c \<in> set ''abcdefghijklmnopqrstuvwxyzABCDEFGHIJKLMNOPQRSTUVWXYZ0123456789_'')"

definition endsWith :: "string \<Rightarrow> string \<Rightarrow> bool" where
  "endsWith str suffix =
     (length suffix \<le> length str \<and> drop (length str - length suffix) str = suffix)"

definition libTail :: "string \<Rightarrow> bool" where
  "libTail r =
     (r = ''d.ts'' \<or>
      (endsWith r ''.d.ts'' \<and> 5 < length r \<and>
       CHR ''/'' \<notin> set (take (length r - 5) r)))"

definition isBuiltinLibDTS :: "string \<Rightarrow> bool" where
  "isBuiltinLibDTS fileName =
     list_ex
       (\<lambda>i. (i = 0 \<or> \<not> isWordChar (fileName ! (i - 1))) \<and>
            take 4 (drop i fileName) = ''lib.'' \<and>
            libTail (drop (i + 4) fileName))
       [0..<length fileName]"

definition isClosureProvidedType :: "tsSymbol \<Rightarrow> bool" where
  "isClosureProvidedType smb =
     (case declarations smb of
        None \<Rightarrow> False
      | Some ds \<Rightarrow> list_ex isBuiltinLibDTS ds)"

section \<open>The methods of TypeTranslator\<close>

fun writerText :: "writerCall \<Rightarrow> string" where
  "writerText (WriteKeyword text) = text"
| "writerText (WriteOperator text) = text"
| "writerText (WritePunctuation text) = text"
| "writerText (WriteSpace text) = text"
| "writerText (WriteStringLiteral text) = text"
| "writerText (WriteParameter text) = text"
| "writerText (WriteProperty text) = text"
| "writerText (WriteSymbol text) = text"
| "writerText WriteLine = []"
| "writerText IncreaseIndent = []"
| "writerText DecreaseIndent = []"
| "writerText Clear = []"
| "writerText (TrackSymbol smb) = []"
| "writerText ReportInaccessibleThisError = []"

text \<open>
  \<^verbatim>\<open>symbolToString\<close>. The test \<^verbatim>\<open>if (alias)\<close> is false for a missing alias and for the
  empty string.
\<close>

definition symbolToString :: "TypeTranslator \<Rightarrow> sid \<Rightarrow> string" where
  "symbolToString T smb =
     (let str = concat (map writerText (buildSymbolDisplay (typeChecker T) smb)) in
      case symbolsToAliasedNames T smb of
        None \<Rightarrow> str
      | Some alias \<Rightarrow> if alias \<noteq> [] then alias else str)"

definition isBlackListed :: "TypeTranslator \<Rightarrow> tsSymbol \<Rightarrow> bool comp" where
  "isBlackListed T smb =
     (case pathBlackList T of
        None \<Rightarrow> ret False
      | Some bl \<Rightarrow>
          (case declarations smb of
             None \<Rightarrow> andThen (warn SymbolHasNoDeclarations) (\<lambda>_. ret True)
           | Some ds \<Rightarrow> ret (list_all (\<lambda>path. path \<in> bl) ds)))"

text \<open>
  The methods call \<^verbatim>\<open>this.translate\<close> on nested types. Each is given that method as
  its first argument \<open>tr\<close>; \<open>translate\<close> below closes the recursion.
\<close>

definition convertParams ::
  "(tid \<Rightarrow> string comp) \<Rightarrow> TypeTranslator \<Rightarrow> tsSignature \<Rightarrow> string list comp" where
  "convertParams tr T sig =
     mapM (\<lambda>param. tr (getTypeOfSymbolAtLocation (typeChecker T) param)) (parameters sig)"

definition signatureToClosure ::
  "(tid \<Rightarrow> string comp) \<Rightarrow> TypeTranslator \<Rightarrow> tsSignature \<Rightarrow> string comp" where
  "signatureToClosure tr T sig =
     andThen (convertParams tr T sig) (\<lambda>params.
       let typeStr = ''function('' @ join '', '' params @ '')'' in
       andThen (tr (returnType sig)) (\<lambda>retType.
         ret (if retType \<noteq> [] then typeStr @ '': '' @ retType else typeStr)))"

definition translateUnion ::
  "(tid \<Rightarrow> string comp) \<Rightarrow> TypeTranslator \<Rightarrow> tid \<Rightarrow> string comp" where
  "translateUnion tr T t =
     andThen (mapM tr (types (typeAt (typeChecker T) t))) (\<lambda>parts.
       let parts' = filterFrom 0 (\<lambda>el idx. indexOf parts el = int idx) parts in
       ret (if length parts' = 1 then parts' ! 0
            else ''('' @ join ''|'' parts' @ '')''))"

text \<open>
  The \<^verbatim>\<open>for\<close> loop of \<^verbatim>\<open>translateTypeLiteral\<close> over the member table, carrying
  \<^verbatim>\<open>callable\<close>, \<^verbatim>\<open>indexable\<close> and \<^verbatim>\<open>fields\<close> (here \<open>flds\<close>).
\<close>

fun gatherFields ::
  "(tid \<Rightarrow> string comp) \<Rightarrow> TypeTranslator \<Rightarrow> (string \<times> sid) list \<Rightarrow>
   bool \<times> bool \<times> string list \<Rightarrow> (bool \<times> bool \<times> string list) comp" where
  "gatherFields tr T [] acc s = ret acc s"
| "gatherFields tr T ((field, member) # rest) (callable, indexable, flds) s =
     (if field = ''__call'' then gatherFields tr T rest (True, indexable, flds) s
      else if field = ''__index'' then gatherFields tr T rest (callable, True, flds) s
      else
        andThen (tr (getTypeOfSymbolAtLocation (typeChecker T) member)) (\<lambda>memberType.
          gatherFields tr T rest
            (callable, indexable, flds @ [field @ '': '' @ memberType])) s)"

text \<open>
  The end of \<^verbatim>\<open>translateTypeLiteral\<close>, reached when no special case of an object
  without fields has returned.
\<close>

definition plainObject :: "bool \<Rightarrow> bool \<Rightarrow> string list \<Rightarrow> string comp" where
  "plainObject callable indexable flds =
     (if \<not> callable \<and> \<not> indexable then ret (''{'' @ join '', '' flds @ ''}'')
      else andThen (warn UnhandledTypeLiteral) (\<lambda>_. ret ''?''))"

text \<open>
  The two uses of the \<^verbatim>\<open>seenTypes\<close> array: \<^verbatim>\<open>this.seenTypes.indexOf(type)\<close> and
  \<^verbatim>\<open>this.seenTypes.push(type)\<close>.
\<close>

definition seenTypesIndexOf :: "tid \<Rightarrow> int comp" where
  "seenTypesIndexOf t s = Some (Inr (indexOf (seenTypes s) t), s)"

definition seenTypesPush :: "tid \<Rightarrow> unit comp" where
  "seenTypesPush t s = Some (Inr (), s\<lparr>seenTypes := seenTypes s @ [t]\<rparr>)"

text \<open>
  \<^verbatim>\<open>translateTypeLiteral\<close> after its first two statements: what it does with a type
  literal that it has just pushed on \<^verbatim>\<open>seenTypes\<close>.
\<close>

definition expandTypeLiteral ::
  "(tid \<Rightarrow> string comp) \<Rightarrow> TypeTranslator \<Rightarrow> tid \<Rightarrow> string comp" where
  "expandTypeLiteral tr T t =
     (let tc = typeChecker T; type = typeAt tc t in
      case (case symbol type of None \<Rightarrow> None | Some sy \<Rightarrow> members (symbolAt tc sy)) of
        None \<Rightarrow> andThen (warn TypeLiteralHasNoSymbol) (\<lambda>_. ret ''?'')
      | Some mems \<Rightarrow>
          (let ctors = getSignaturesOfType tc t Construct in
           if ctors \<noteq> [] then
             andThen (convertParams tr T (ctors ! 0)) (\<lambda>params.
               let paramsStr = (if params \<noteq> [] then '', '' @ join '', '' params else []) in
               andThen (tr (returnType (ctors ! 0))) (\<lambda>constructedType.
                 ret (''function(new: ('' @ constructedType @ '')'' @ paramsStr @ ''): ?'')))
           else
             andThen (gatherFields tr T mems (False, False, []))
               (\<lambda>(callable, indexable, flds).
                 if flds = [] then
                   (if callable \<and> \<not> indexable then
                      (let sigs = getSignaturesOfType tc t Call in
                       if length sigs = 1 then signatureToClosure tr T (sigs ! 0)
                       else plainObject callable indexable flds)
                    else if indexable \<and> \<not> callable then
                      (let (keyType, valType) =
                         (case getIndexTypeOfType tc t String of
                            Some v \<Rightarrow> (''string'', Some v)
                          | None \<Rightarrow> (''number'', getIndexTypeOfType tc t Number)) in
                       case valType of
                         None \<Rightarrow>
                           andThen (warn UnknownIndexKeyType) (\<lambda>_. ret ''!Object<?,?>'')
                       | Some v \<Rightarrow>
                           andThen (tr v) (\<lambda>valStr.
                             ret (''!Object<'' @ keyType @ '','' @ valStr @ ''>'')))
                    else if \<not> callable \<and> \<not> indexable then ret ''!Object''
                    else plainObject callable indexable flds)
                 else plainObject callable indexable flds)))"

text \<open>
  \<^verbatim>\<open>translateTypeLiteral\<close>: the guard against recursive types, the push, and the rest.
\<close>

definition translateTypeLiteral ::
  "(tid \<Rightarrow> string comp) \<Rightarrow> TypeTranslator \<Rightarrow> tid \<Rightarrow> string comp" where
  "translateTypeLiteral tr T t =
     andThen (seenTypesIndexOf t) (\<lambda>idx.
       if idx \<noteq> -1 then ret ''?''
       else andThen (seenTypesPush t) (\<lambda>_. expandTypeLiteral tr T t))"

text \<open>
  \<^verbatim>\<open>translateObject\<close>. The guard \<^verbatim>\<open>type.symbol && this.isBlackListed(type.symbol)\<close>
  comes first; the chain of \<^verbatim>\<open>objectFlags\<close> tests follows in the order of the source.
\<close>

definition translateObject ::
  "(tid \<Rightarrow> string comp) \<Rightarrow> TypeTranslator \<Rightarrow> tid \<Rightarrow> string comp" where
  "translateObject tr T t =
     (let tc = typeChecker T; type = typeAt tc t in
      andThen (case symbol type of
                 None \<Rightarrow> ret False
               | Some sy \<Rightarrow> isBlackListed T (symbolAt tc sy)) (\<lambda>blackListed.
        if blackListed then ret ''?''
        else if objectFlags type AND ObjectFlags_Class \<noteq> 0 then
          (case symbol type of
             None \<Rightarrow> andThen (warn ClassHasNoSymbol) (\<lambda>_. ret ''?'')
           | Some sy \<Rightarrow> ret (''!'' @ symbolToString T sy))
        else if objectFlags type AND ObjectFlags_Interface \<noteq> 0 then
          (case symbol type of
             None \<Rightarrow> andThen (warn InterfaceHasNoSymbol) (\<lambda>_. ret ''?'')
           | Some sy \<Rightarrow>
               if symFlags (symbolAt tc sy) AND SymbolFlags_Value \<noteq> 0 \<and>
                  \<not> isClosureProvidedType (symbolAt tc sy)
               then andThen (warn (TypeSymbolConflict (symName (symbolAt tc sy))))
                      (\<lambda>_. ret ''?'')
               else ret (''!'' @ symbolToString T sy))
        else if objectFlags type AND ObjectFlags_Reference \<noteq> 0 then
          (if objectFlags (typeAt tc (target type)) AND ObjectFlags_Tuple \<noteq> 0
           then ret ''!Array<?>''
           else if target type = t then throw (ReferenceLoop t)
           else
             andThen (tr (target type)) (\<lambda>typeStr.
               case typeArguments type of
                 None \<Rightarrow> ret typeStr
               | Some args \<Rightarrow>
                   andThen (mapM tr args) (\<lambda>params.
                     ret (typeStr @ ''<'' @ join '', '' params @ ''>''))))
        else if objectFlags type AND ObjectFlags_Anonymous \<noteq> 0 then
          (case symbol type of
             None \<Rightarrow> andThen (warn AnonymousTypeHasNoSymbol) (\<lambda>_. ret ''?'')
           | Some sy \<Rightarrow>
               if symFlags (symbolAt tc sy) = SymbolFlags_TypeLiteral
               then translateTypeLiteral tr T t
               else if (symFlags (symbolAt tc sy) = SymbolFlags_Function \<or>
                        symFlags (symbolAt tc sy) = SymbolFlags_Method) \<and>
                       length (getSignaturesOfType tc t Call) = 1
               then signatureToClosure tr T (getSignaturesOfType tc t Call ! 0)
               else andThen (warn UnhandledAnonymousType) (\<lambda>_. ret ''?''))
        else andThen (warn (UnhandledType t)) (\<lambda>_. ret ''?'')))"

text \<open>
  The body of \<^verbatim>\<open>translate\<close>: the \<^verbatim>\<open>switch\<close> on \<^verbatim>\<open>type.flags & mask\<close> compares with
  the \<^verbatim>\<open>case\<close> labels in their order, and the \<^verbatim>\<open>default\<close> tests the Union bit of the
  flags themselves. \<^verbatim>\<open>mask\<close> is \<^verbatim>\<open>(lastFlag << 1) - 1\<close>.
\<close>

definition lastFlag :: "32 word" where
  "lastFlag = TypeFlags_IndexedAccess"

definition flagMask :: "32 word" where
  "flagMask = push_bit 1 lastFlag - 1"

definition translateBody ::
  "(tid \<Rightarrow> string comp) \<Rightarrow> TypeTranslator \<Rightarrow> tid \<Rightarrow> string comp" where
  "translateBody tr T t =
     (let type = typeAt (typeChecker T) t; v = flags type AND flagMask in
      if v = TypeFlags_Any then ret ''?''
      else if v = TypeFlags_String \<or> v = TypeFlags_StringLiteral then ret ''string''
      else if v = TypeFlags_Number \<or> v = TypeFlags_NumberLiteral then ret ''number''
      else if v = TypeFlags_Boolean \<or> v = TypeFlags_BooleanLiteral then ret ''boolean''
      else if v = TypeFlags_Enum \<or> v = TypeFlags_EnumLiteral then ret ''number''
      else if v = TypeFlags_ESSymbol then ret ''symbol''
      else if v = TypeFlags_Void then ret ''void''
      else if v = TypeFlags_Undefined then ret ''undefined''
      else if v = TypeFlags_Null then ret ''null''
      else if v = TypeFlags_Never then
        andThen (warn ShouldNotEmitNever) (\<lambda>_. ret ''?'')
      else if v = TypeFlags_TypeParameter then
        andThen (warn (UnhandledTypeFlags (flags type))) (\<lambda>_. ret ''?'')
      else if v = TypeFlags_Object then translateObject tr T t
      else if v = TypeFlags_Union then translateUnion tr T t
      else if v = TypeFlags_Intersection \<or> v = TypeFlags_Index \<or>
              v = TypeFlags_IndexedAccess then
        andThen (warn (UnhandledTypeFlags (flags type))) (\<lambda>_. ret ''?'')
      else if flags type AND TypeFlags_Union \<noteq> 0 then translateUnion tr T t
      else throw (UnknownTypeFlags (flags type)))"

text \<open>
  \<^verbatim>\<open>translate\<close>. The type graph may be cyclic and only type literals are guarded by
  \<^verbatim>\<open>seenTypes\<close>, so the recursion is bounded by a fuel: the number of nested calls
  of \<^verbatim>\<open>translate\<close> allowed. \<^verbatim>\<open>None\<close> is a recursion deeper than that.
\<close>

fun translate :: "nat \<Rightarrow> TypeTranslator \<Rightarrow> tid \<Rightarrow> string comp" where
  "translate 0 T t s = None"
| "translate (Suc n) T t s = translateBody (translate n T) T t s"

text \<open>The \<^verbatim>\<open>case\<close> labels of the \<^verbatim>\<open>switch\<close> in \<^verbatim>\<open>translate\<close>, in their order.\<close>

definition caseLabels :: "32 word list" where
  "caseLabels =
     [TypeFlags_Any, TypeFlags_String, TypeFlags_StringLiteral, TypeFlags_Number,
      TypeFlags_NumberLiteral, TypeFlags_Boolean, TypeFlags_BooleanLiteral, TypeFlags_Enum,
      TypeFlags_EnumLiteral, TypeFlags_ESSymbol, TypeFlags_Void, TypeFlags_Undefined,
      TypeFlags_Null, TypeFlags_Never, TypeFlags_TypeParameter, TypeFlags_Object,
      TypeFlags_Union, TypeFlags_Intersection, TypeFlags_Index, TypeFlags_IndexedAccess]"

section \<open>The union rule in the words of the specification\<close>

text \<open>
  Removing duplicates while keeping the first occurrence of each string in its place:
  the head stays, and every later copy of it goes.
\<close>

fun keepFirst :: "'a list \<Rightarrow> 'a list" where
  "keepFirst [] = []"
| "keepFirst (x # xs) = x # keepFirst (removeAll x xs)"

definition unionString :: "string list \<Rightarrow> string" where
  "unionString parts =
     (case keepFirst parts of
        [single] \<Rightarrow> single
      | distinctParts \<Rightarrow> ''('' @ join ''|'' distinctParts @ '')'')"

section \<open>A small program to run the translator on\<close>

text \<open>
  The types and symbols of
  \<^verbatim>\<open>class Foo {} let a: Array<number>; let x: {a: number, b: string|undefined};\<close>
  and of a few degenerate shapes. Types: 0 \<^verbatim>\<open>number\<close>, 1 \<^verbatim>\<open>string\<close>, 2 the class
  \<^verbatim>\<open>Foo\<close>, 3 the generic interface \<^verbatim>\<open>Array\<close> (flagged Interface and Reference, its own
  target), 4 \<^verbatim>\<open>Array<number>\<close>, 5 the type literal, 6 \<^verbatim>\<open>string|undefined\<close>,
  7 \<^verbatim>\<open>undefined\<close>, 8 a reference that is only a Reference and its own target,
  9 \<^verbatim>\<open>boolean\<close> (Union and Boolean, of 10 \<^verbatim>\<open>true\<close> and 11 \<^verbatim>\<open>false\<close>), 12 a type without
  flags, 13 a generic interface \<^verbatim>\<open>Conflict\<close> whose name is also a value, 14 the type
  literal \<^verbatim>\<open>{(): number; foo: number}\<close>, 15 a class whose symbol has no declarations,
  16 the type parameter of \<^verbatim>\<open>Array\<close>.
\<close>

definition emptyType :: tsType where
  "emptyType =
     \<lparr>flags = 0, symbol = None, objectFlags = 0, target = 0,
      typeArguments = None, types = []\<rparr>"

definition demoTypes :: "tid \<Rightarrow> tsType" where
  "demoTypes i =
     (if i = 0 then emptyType\<lparr>flags := TypeFlags_Number\<rparr>
      else if i = 1 then emptyType\<lparr>flags := TypeFlags_String\<rparr>
      else if i = 2 then
        emptyType\<lparr>flags := TypeFlags_Object, objectFlags := ObjectFlags_Class,
                    symbol := Some 1\<rparr>
      else if i = 3 then
        emptyType\<lparr>flags := TypeFlags_Object,
                    objectFlags := ObjectFlags_Interface OR ObjectFlags_Reference,
                    symbol := Some 2, target := 3, typeArguments := Some [16]\<rparr>
      else if i = 4 then
        emptyType\<lparr>flags := TypeFlags_Object, objectFlags := ObjectFlags_Reference,
                    symbol := Some 2, target := 3, typeArguments := Some [0]\<rparr>
      else if i = 5 then
        emptyType\<lparr>flags := TypeFlags_Object, objectFlags := ObjectFlags_Anonymous,
                    symbol := Some 3\<rparr>
      else if i = 6 then emptyType\<lparr>flags := TypeFlags_Union, types := [1, 7]\<rparr>
      else if i = 7 then emptyType\<lparr>flags := TypeFlags_Undefined\<rparr>
      else if i = 8 then
        emptyType\<lparr>flags := TypeFlags_Object, objectFlags := ObjectFlags_Reference,
                    target := 8\<rparr>
      else if i = 9 then
        emptyType\<lparr>flags := TypeFlags_Union OR TypeFlags_Boolean, types := [10, 11]\<rparr>
      else if i = 10 \<or> i = 11 then emptyType\<lparr>flags := TypeFlags_BooleanLiteral\<rparr>
      else if i = 13 then
        emptyType\<lparr>flags := TypeFlags_Object,
                    objectFlags := ObjectFlags_Interface OR ObjectFlags_Reference,
                    symbol := Some 4, target := 13, typeArguments := Some [16]\<rparr>
      else if i = 14 then
        emptyType\<lparr>flags := TypeFlags_Object, objectFlags := ObjectFlags_Anonymous,
                    symbol := Some 5\<rparr>
      else if i = 15 then
        emptyType\<lparr>flags := TypeFlags_Object, objectFlags := ObjectFlags_Class,
                    symbol := Some 6\<rparr>
      else if i = 16 then emptyType\<lparr>flags := TypeFlags_TypeParameter\<rparr>
      else emptyType)"

text \<open>
  Symbols: 1 \<^verbatim>\<open>Foo\<close>, 2 \<^verbatim>\<open>Array\<close> (an interface and a variable, declared in
  \<^verbatim>\<open>lib.d.ts\<close>), 3 and 5 the \<^verbatim>\<open>__type\<close> symbols of the two type literals, 4
  \<^verbatim>\<open>Conflict\<close> (an interface and a variable of \<^verbatim>\<open>foo.ts\<close>), 6 a class symbol
  without declarations, 10 and 11 the properties \<^verbatim>\<open>a\<close> and \<^verbatim>\<open>b\<close>, 12 \<^verbatim>\<open>foo\<close>,
  13 the call member.
\<close>

definition demoSymbols :: "sid \<Rightarrow> tsSymbol" where
  "demoSymbols i =
     (if i = 1 then
        \<lparr>symName = ''Foo'', symFlags = 32, declarations = Some [''foo.ts''],
         members = None\<rparr>
      else if i = 2 then
        \<lparr>symName = ''Array'', symFlags = 65, declarations = Some [''lib.d.ts''],
         members = None\<rparr>
      else if i = 3 then
        \<lparr>symName = ''__type'', symFlags = SymbolFlags_TypeLiteral,
         declarations = Some [''foo.ts''], members = Some [(''a'', 10), (''b'', 11)]\<rparr>
      else if i = 4 then
        \<lparr>symName = ''Conflict'', symFlags = 65, declarations = Some [''foo.ts'', ''foo.ts''],
         members = None\<rparr>
      else if i = 5 then
        \<lparr>symName = ''__type'', symFlags = SymbolFlags_TypeLiteral,
         declarations = Some [''foo.ts''],
         members = Some [(''__call'', 13), (''foo'', 12)]\<rparr>
      else if i = 6 then
        \<lparr>symName = ''Ghost'', symFlags = 32, declarations = None, members = None\<rparr>
      else
        \<lparr>symName = ''prop'', symFlags = 4, declarations = Some [''foo.ts''],
         members = None\<rparr>)"

definition demoChecker :: typeChecker where
  "demoChecker =
     \<lparr>typeAt = demoTypes,
      symbolAt = demoSymbols,
      getTypeOfSymbolAtLocation = (\<lambda>i. if i = 11 then 6 else 0),
      getSignaturesOfType =
        (\<lambda>t k. if t = 14 \<and> k = Call then [\<lparr>parameters = [], returnType = 0\<rparr>] else []),
      getIndexTypeOfType = (\<lambda>t k. None),
      buildSymbolDisplay = (\<lambda>i. [WriteSymbol (symName (demoSymbols i))])\<rparr>"

text \<open>
  Three instances over that program: without configuration; with the alias
  \<^verbatim>\<open>tsickle_import.Foo\<close> for \<^verbatim>\<open>Foo\<close> and a blacklist that holds only \<^verbatim>\<open>bar.ts\<close>;
  and with that alias and \<^verbatim>\<open>foo.ts\<close> blacklisted.
\<close>

definition demoPlain :: TypeTranslator where
  "demoPlain =
     \<lparr>typeChecker = demoChecker, pathBlackList = None,
      symbolsToAliasedNames = (\<lambda>i. None)\<rparr>"

definition demoAliased :: TypeTranslator where
  "demoAliased =
     \<lparr>typeChecker = demoChecker, pathBlackList = Some {''bar.ts''},
      symbolsToAliasedNames = (\<lambda>i. if i = 1 then Some ''tsickle_import.Foo'' else None)\<rparr>"

definition demoBlackListed :: TypeTranslator where
  "demoBlackListed =
     \<lparr>typeChecker = demoChecker, pathBlackList = Some {''foo.ts''},
      symbolsToAliasedNames = (\<lambda>i. if i = 1 then Some ''tsickle_import.Foo'' else None)\<rparr>"

definition freshState :: tstate where
  "freshState = \<lparr>seenTypes = [], warnings = []\<rparr>"

section \<open>Properties of a method that its callees pass on\<close>

text \<open>
  A method never removes a type from \<^verbatim>\<open>seenTypes\<close>, whatever it returns or throws.
\<close>

definition grows :: "'a comp \<Rightarrow> bool" where
  "grows m = (\<forall>s r s'. m s = Some (r, s') \<longrightarrow> set (seenTypes s) \<subseteq> set (seenTypes s'))"

text \<open>Every value that a method returns satisfies \<open>Q\<close>.\<close>

definition yields :: "'a comp \<Rightarrow> ('a \<Rightarrow> bool) \<Rightarrow> bool" where
  "yields m Q = (\<forall>s x s'. m s = Some (Inr x, s') \<longrightarrow> Q x)"

section \<open>Facts about the flag constants and the effects\<close>

lemmas TypeFlags_defs =
  TypeFlags_Any_def TypeFlags_String_def TypeFlags_Number_def TypeFlags_Boolean_def
  TypeFlags_Enum_def TypeFlags_StringLiteral_def TypeFlags_NumberLiteral_def
  TypeFlags_BooleanLiteral_def TypeFlags_EnumLiteral_def TypeFlags_ESSymbol_def
  TypeFlags_Void_def TypeFlags_Undefined_def TypeFlags_Null_def TypeFlags_Never_def
  TypeFlags_TypeParameter_def TypeFlags_Object_def TypeFlags_Union_def
  TypeFlags_Intersection_def TypeFlags_Index_def TypeFlags_IndexedAccess_def

lemmas ObjectFlags_defs =
  ObjectFlags_Class_def ObjectFlags_Interface_def ObjectFlags_Reference_def
  ObjectFlags_Tuple_def ObjectFlags_Anonymous_def

lemmas SymbolFlags_defs =
  SymbolFlags_Function_def SymbolFlags_TypeLiteral_def SymbolFlags_Method_def
  SymbolFlags_Value_def

lemma andThen_ret [simp]: "andThen (ret x) f = f x"
  by (rule ext) (simp add: andThen_def ret_def)

lemma andThen_throw [simp]: "andThen (throw e) f = throw e"
  by (rule ext) (simp add: andThen_def throw_def)

lemma andThen_assoc: "andThen (andThen m f) g = andThen m (\<lambda>x. andThen (f x) g)"
  by (rule ext) (simp add: andThen_def split: option.splits sum.splits prod.splits)

lemma andThen_warn [simp]:
  "andThen (warn w) f s = f () (s\<lparr>warnings := warnings s @ [w]\<rparr>)"
  by (simp add: andThen_def warn_def)

lemma andThen_seenTypesIndexOf [simp]:
  "andThen (seenTypesIndexOf t) f s = f (indexOf (seenTypes s) t) s"
  by (simp add: andThen_def seenTypesIndexOf_def)

lemma andThen_seenTypesPush [simp]:
  "andThen (seenTypesPush t) f s = f () (s\<lparr>seenTypes := seenTypes s @ [t]\<rparr>)"
  by (simp add: andThen_def seenTypesPush_def)

lemma andThen_Inr: "m s = Some (Inr x, s1) \<Longrightarrow> andThen m f s = f x s1"
  by (simp add: andThen_def)

lemma andThen_Inl: "m s = Some (Inl e, s1) \<Longrightarrow> andThen m f s = Some (Inl e, s1)"
  by (simp add: andThen_def)

lemma andThen_None: "m s = None \<Longrightarrow> andThen m f s = None"
  by (simp add: andThen_def)

lemma flagMask_value: "flagMask = 1048575"
  by (simp add: flagMask_def lastFlag_def TypeFlags_IndexedAccess_def)

section \<open>The blacklist filter\<close>

text \<open>
  C6. With a path blacklist configured, \<^verbatim>\<open>isBlackListed\<close> answers true for a symbol
  without declaration sites, so that \<^verbatim>\<open>translateObject\<close> answers \<^verbatim>\<open>?\<close> for a type of
  that symbol, and calls \<^verbatim>\<open>warn\<close> when \<^verbatim>\<open>declarations\<close> is \<^verbatim>\<open>undefined\<close>. Without a
  blacklist it answers false and warns of nothing.
\<close>

theorem isBlackListed_zero_declarations:
  "(pathBlackList T = Some bl \<and> declarations smb = None \<longrightarrow>
      isBlackListed T smb s =
        Some (Inr True, s\<lparr>warnings := warnings s @ [SymbolHasNoDeclarations]\<rparr>)) \<and>
   (pathBlackList T = Some bl \<and> declarations smb = Some [] \<longrightarrow>
      isBlackListed T smb s = Some (Inr True, s)) \<and>
   (pathBlackList T = None \<longrightarrow> isBlackListed T smb s = Some (Inr False, s)) \<and>
   (pathBlackList T = Some bl \<and> symbol (typeAt (typeChecker T) t) = Some sy \<and>
    declarations (symbolAt (typeChecker T) sy) = None \<longrightarrow>
      translateObject tr T t s =
        Some (Inr ''?'', s\<lparr>warnings := warnings s @ [SymbolHasNoDeclarations]\<rparr>)) \<and>
   (pathBlackList T = Some bl \<and> symbol (typeAt (typeChecker T) t) = Some sy \<and>
    declarations (symbolAt (typeChecker T) sy) = Some [] \<longrightarrow>
      translateObject tr T t s = Some (Inr ''?'', s))"
proof -
  have direct:
    "pathBlackList T = Some bl \<Longrightarrow> declarations x = None \<Longrightarrow>
       isBlackListed T x s =
         Some (Inr True, s\<lparr>warnings := warnings s @ [SymbolHasNoDeclarations]\<rparr>)"
    "pathBlackList T = Some bl \<Longrightarrow> declarations x = Some [] \<Longrightarrow>
       isBlackListed T x s = Some (Inr True, s)"
    "pathBlackList T = None \<Longrightarrow> isBlackListed T x s = Some (Inr False, s)" for x
    by (simp_all add: isBlackListed_def ret_def)
  have object:
    "symbol (typeAt (typeChecker T) t) = Some sy \<Longrightarrow>
     isBlackListed T (symbolAt (typeChecker T) sy) s = Some (Inr True, s1) \<Longrightarrow>
       translateObject tr T t s = Some (Inr ''?'', s1)" for s1
    by (simp add: translateObject_def Let_def andThen_def ret_def)
  show ?thesis
    using direct [of smb] direct [of "symbolAt (typeChecker T) sy"] object
    by blast
qed

text \<open>
  Without a blacklist the class whose symbol has no declarations is not suppressed:
  it is translated to its name, and no diagnostic is recorded.
\<close>

theorem isBlackListed_zero_declarations_counterexample:
  "declarations (demoSymbols 6) = None \<and>
   isBlackListed demoPlain (demoSymbols 6) freshState = Some (Inr False, freshState) \<and>
   symbol (demoTypes 15) = Some 6 \<and>
   translate 2 demoPlain 15 freshState = Some (Inr ''!Ghost'', freshState)"
  by code_simp

theorem isBlackListed_zero_declarations_witness:
  "pathBlackList demoBlackListed = Some {''foo.ts''} \<and>
   declarations (demoSymbols 6) = None \<and>
   isBlackListed demoBlackListed (demoSymbols 6) freshState =
     Some (Inr True, freshState\<lparr>warnings := [SymbolHasNoDeclarations]\<rparr>) \<and>
   symbol (typeAt (typeChecker demoBlackListed) 15) = Some 6 \<and>
   declarations (symbolAt (typeChecker demoBlackListed) 6) = None \<and>
   translateObject (\<lambda>u s. None) demoBlackListed 15 freshState =
     Some (Inr ''?'', freshState\<lparr>warnings := [SymbolHasNoDeclarations]\<rparr>) \<and>
   pathBlackList demoPlain = None \<and>
   isBlackListed demoPlain (demoSymbols 6) freshState = Some (Inr False, freshState)"
proof -
  have bl: "pathBlackList demoBlackListed = Some {''foo.ts''}"
    by (simp add: demoBlackListed_def)
  have none: "declarations (demoSymbols 6) = None"
    by (simp add: demoSymbols_def)
  have sy: "symbol (typeAt (typeChecker demoBlackListed) 15) = Some 6"
    by code_simp
  have none': "declarations (symbolAt (typeChecker demoBlackListed) 6) = None"
    by code_simp
  have plain: "pathBlackList demoPlain = None"
    by (simp add: demoPlain_def)
  have w: "warnings freshState = []"
    by (simp add: freshState_def)
  from isBlackListed_zero_declarations
         [where T = demoBlackListed and bl = "{''foo.ts''}" and smb = "demoSymbols 6"
            and s = freshState and t = 15 and sy = 6 and tr = "\<lambda>u s. None"]
    isBlackListed_zero_declarations
         [where T = demoPlain and smb = "demoSymbols 6" and s = freshState]
    bl none sy none' plain w
  show ?thesis by simp
qed

text \<open>
  C7. When a blacklist is configured and every declaration of the symbol of an object
  type lies in it, \<^verbatim>\<open>translateObject\<close> returns \<^verbatim>\<open>?\<close> whatever the \<^verbatim>\<open>objectFlags\<close>
  are. The result does not depend on \<open>tr\<close>: no member, target or type argument is
  translated, \<^verbatim>\<open>seenTypes\<close> is untouched, and the only diagnostic possible is the one
  of \<^verbatim>\<open>isBlackListed\<close>.
\<close>

theorem blacklisted_object_is_unknown:
  assumes "symbol (typeAt (typeChecker T) t) = Some sy"
    and "pathBlackList T = Some bl"
    and "\<forall>ds. declarations (symbolAt (typeChecker T) sy) = Some ds \<longrightarrow> set ds \<subseteq> bl"
  shows "translateObject tr T t s =
           Some (Inr ''?'',
             (case declarations (symbolAt (typeChecker T) sy) of
                None \<Rightarrow> s\<lparr>warnings := warnings s @ [SymbolHasNoDeclarations]\<rparr>
              | Some ds \<Rightarrow> s))"
proof -
  let ?s' = "case declarations (symbolAt (typeChecker T) sy) of
               None \<Rightarrow> s\<lparr>warnings := warnings s @ [SymbolHasNoDeclarations]\<rparr>
             | Some ds \<Rightarrow> s"
  have "isBlackListed T (symbolAt (typeChecker T) sy) s = Some (Inr True, ?s')"
    using assms(2,3)
    by (cases "declarations (symbolAt (typeChecker T) sy)")
       (auto simp: isBlackListed_def ret_def list_all_iff)
  then show ?thesis
    by (simp add: translateObject_def Let_def assms(1) andThen_Inr ret_def)
qed

theorem blacklisted_object_is_unknown_witness:
  "symbol (typeAt (typeChecker demoBlackListed) 5) = Some 3 \<and>
   pathBlackList demoBlackListed = Some {''foo.ts''} \<and>
   declarations (symbolAt (typeChecker demoBlackListed) 3) = Some [''foo.ts''] \<and>
   translateObject (\<lambda>u s. None) demoBlackListed 5 freshState = Some (Inr ''?'', freshState)"
proof -
  have sy: "symbol (typeAt (typeChecker demoBlackListed) 5) = Some 3"
    by code_simp
  have bl: "pathBlackList demoBlackListed = Some {''foo.ts''}"
    by (simp add: demoBlackListed_def)
  have ds: "declarations (symbolAt (typeChecker demoBlackListed) 3) = Some [''foo.ts'']"
    by code_simp
  have sub: "\<forall>ds. declarations (symbolAt (typeChecker demoBlackListed) 3) = Some ds \<longrightarrow>
               set ds \<subseteq> {''foo.ts''}"
    by (simp add: ds)
  from blacklisted_object_is_unknown [OF sy bl sub, of "\<lambda>u s. None" freshState] sy bl ds
  show ?thesis by simp
qed

section \<open>The dispatch of translate\<close>

text \<open>
  C8. When the masked flags equal no \<^verbatim>\<open>case\<close> label, \<^verbatim>\<open>translate\<close> hands the type to
  \<^verbatim>\<open>translateUnion\<close> if the Union bit is set, and throws the error
  \<^verbatim>\<open>unknown type flags\<close> otherwise.
\<close>

theorem translate_default_case:
  assumes "flags (typeAt (typeChecker T) t) AND flagMask \<notin> set caseLabels"
  shows "translate (Suc n) T t s =
           (if flags (typeAt (typeChecker T) t) AND TypeFlags_Union \<noteq> 0
            then translateUnion (translate n T) T t s
            else Some (Inl (UnknownTypeFlags (flags (typeAt (typeChecker T) t))), s))"
  using assms by (simp add: translateBody_def caseLabels_def Let_def throw_def)

theorem translate_default_case_witness:
  "flags (typeAt (typeChecker demoPlain) 9) AND flagMask \<notin> set caseLabels \<and>
   flags (typeAt (typeChecker demoPlain) 9) AND TypeFlags_Union \<noteq> 0 \<and>
   translate (Suc 1) demoPlain 9 freshState = Some (Inr ''boolean'', freshState) \<and>
   flags (typeAt (typeChecker demoPlain) 12) AND flagMask \<notin> set caseLabels \<and>
   flags (typeAt (typeChecker demoPlain) 12) AND TypeFlags_Union = 0 \<and>
   translate (Suc 1) demoPlain 12 freshState = Some (Inl (UnknownTypeFlags 0), freshState)"
proof -
  have h9: "flags (typeAt (typeChecker demoPlain) 9) AND flagMask \<notin> set caseLabels"
    by code_simp
  have u9: "flags (typeAt (typeChecker demoPlain) 9) AND TypeFlags_Union \<noteq> 0"
    by code_simp
  have r9: "translateUnion (translate 1 demoPlain) demoPlain 9 freshState =
              Some (Inr ''boolean'', freshState)"
    by code_simp
  have h12: "flags (typeAt (typeChecker demoPlain) 12) AND flagMask \<notin> set caseLabels"
    by code_simp
  have u12: "flags (typeAt (typeChecker demoPlain) 12) AND TypeFlags_Union = 0"
    by code_simp
  have f12: "flags (typeAt (typeChecker demoPlain) 12) = 0"
    by code_simp
  from translate_default_case [OF h9, of 1 freshState]
    translate_default_case [OF h12, of 1 freshState] h9 u9 r9 h12 u12 f12
  show ?thesis by simp
qed

section \<open>Unions\<close>

lemma indexOf_notin: "x \<notin> set xs \<Longrightarrow> indexOf xs x = -1"
  by (induction xs) (auto simp: Let_def)

lemma indexOf_in: "x \<in> set xs \<Longrightarrow> 0 \<le> indexOf xs x \<and> indexOf xs x < int (length xs)"
  by (induction xs) (auto simp: Let_def)

lemma indexOf_append_in: "x \<in> set pre \<Longrightarrow> indexOf (pre @ ys) x = indexOf pre x"
proof (induction pre)
  case Nil
  then show ?case by simp
next
  case (Cons p pre)
  show ?case
  proof (cases "p = x")
    case True
    then show ?thesis by simp
  next
    case False
    with Cons.prems have "x \<in> set pre" by simp
    with Cons.IH False show ?thesis by (simp add: Let_def)
  qed
qed

lemma indexOf_append_notin:
  "x \<notin> set pre \<Longrightarrow> indexOf (pre @ x # ys) x = int (length pre)"
  by (induction pre) (auto simp: Let_def)

lemma indexOf_first:
  "indexOf (pre @ x # ys) x = int (length pre) \<longleftrightarrow> x \<notin> set pre"
proof
  assume eq: "indexOf (pre @ x # ys) x = int (length pre)"
  show "x \<notin> set pre"
  proof
    assume "x \<in> set pre"
    then have "indexOf (pre @ x # ys) x = indexOf pre x" "indexOf pre x < int (length pre)"
      by (simp_all add: indexOf_append_in indexOf_in)
    with eq show False by simp
  qed
next
  assume "x \<notin> set pre"
  then show "indexOf (pre @ x # ys) x = int (length pre)"
    by (rule indexOf_append_notin)
qed

lemma keepFirst_filter_Cons:
  "keepFirst (filter P (x # xs)) =
     (if P x then x # keepFirst (filter (\<lambda>y. y \<noteq> x \<and> P y) xs) else keepFirst (filter P xs))"
proof -
  have "removeAll x (filter P xs) = filter (\<lambda>y. y \<noteq> x \<and> P y) xs"
    by (induction xs) auto
  then show ?thesis by simp
qed

lemma filterFrom_keepFirst:
  "filterFrom (length pre) (\<lambda>el idx. indexOf (pre @ xs) el = int idx) xs =
     keepFirst (filter (\<lambda>y. y \<notin> set pre) xs)"
proof (induction xs arbitrary: pre)
  case Nil
  show ?case by simp
next
  case (Cons x xs)
  have ih: "filterFrom (Suc (length pre)) (\<lambda>el idx. indexOf (pre @ x # xs) el = int idx) xs =
              keepFirst (filter (\<lambda>y. y \<noteq> x \<and> y \<notin> set pre) xs)"
    using Cons.IH [of "pre @ [x]"] by simp
  show ?case
  proof (cases "x \<in> set pre")
    case True
    then have same: "filter (\<lambda>y. y \<noteq> x \<and> y \<notin> set pre) xs = filter (\<lambda>y. y \<notin> set pre) xs"
      by (intro filter_cong) auto
    from True have "indexOf (pre @ x # xs) x \<noteq> int (length pre)"
      by (simp add: indexOf_first)
    with True ih same show ?thesis by simp
  next
    case False
    then have "indexOf (pre @ x # xs) x = int (length pre)"
      by (simp add: indexOf_first)
    with False ih show ?thesis by (simp only: keepFirst_filter_Cons filterFrom.simps if_True if_False) simp
  qed
qed

lemma dedup_keepFirst:
  "filterFrom 0 (\<lambda>el idx. indexOf parts el = int idx) parts = keepFirst parts"
  using filterFrom_keepFirst [of "[]" parts] by simp

lemma set_keepFirst: "set (keepFirst xs) = set xs"
  by (induction xs rule: keepFirst.induct) auto

lemma distinct_keepFirst: "distinct (keepFirst xs)"
  by (induction xs rule: keepFirst.induct) (auto simp: set_keepFirst)

lemma unionString_code:
  "(if length (keepFirst parts) = Suc 0 then keepFirst parts ! 0
    else ''('' @ join ''|'' (keepFirst parts) @ '')'') = unionString parts"
proof (cases "keepFirst parts")
  case Nil
  then show ?thesis by (simp add: unionString_def)
next
  case (Cons a as)
  then show ?thesis by (cases as) (simp_all add: unionString_def)
qed

text \<open>
  C3. \<^verbatim>\<open>translateUnion\<close> translates the constituents one after the other, in their
  order, each by a call of \<^verbatim>\<open>translate\<close> (a throw of one of them ends the union); the
  filter on \<^verbatim>\<open>indexOf\<close> keeps the first occurrence of every string in its place, so the
  strings kept are distinct and are those translated; one string left is returned bare,
  any other number of them is joined with \<^verbatim>\<open>|\<close> inside parentheses.
\<close>

theorem translateUnion_dedup:
  "translateUnion tr T t s =
     andThen (mapM tr (types (typeAt (typeChecker T) t))) (\<lambda>parts. ret (unionString parts)) s \<and>
   distinct (keepFirst parts) \<and> set (keepFirst parts) = set parts"
  by (simp add: translateUnion_def dedup_keepFirst unionString_code distinct_keepFirst
      set_keepFirst Let_def)

theorem translateUnion_dedup_witness:
  "translateUnion (translate 1 demoPlain) demoPlain 9 freshState = Some (Inr ''boolean'', freshState) \<and>
   translateUnion (translate 1 demoPlain) demoPlain 6 freshState =
     Some (Inr ''(string|undefined)'', freshState) \<and>
   keepFirst [''boolean'', ''number'', ''boolean''] = [''boolean'', ''number'']"
proof -
  have m9: "mapM (translate 1 demoPlain) (types (typeAt (typeChecker demoPlain) 9)) freshState =
              Some (Inr [''boolean'', ''boolean''], freshState)"
    by code_simp
  have m6: "mapM (translate 1 demoPlain) (types (typeAt (typeChecker demoPlain) 6)) freshState =
              Some (Inr [''string'', ''undefined''], freshState)"
    by code_simp
  have u9: "unionString [''boolean'', ''boolean''] = ''boolean''"
    by code_simp
  have u6: "unionString [''string'', ''undefined''] = ''(string|undefined)''"
    by code_simp
  have k: "keepFirst [''boolean'', ''number'', ''boolean''] = [''boolean'', ''number'']"
    by code_simp
  from translateUnion_dedup [of "translate 1 demoPlain" demoPlain 9 freshState "[]"]
    translateUnion_dedup [of "translate 1 demoPlain" demoPlain 6 freshState "[]"]
    m9 m6 u9 u6 k
  show ?thesis by (simp add: andThen_def ret_def)
qed

section \<open>Type literals\<close>

lemma indexOf_seen: "indexOf xs x \<noteq> -1 \<longleftrightarrow> x \<in> set xs"
  using indexOf_notin [of x xs] indexOf_in [of x xs] by auto

lemma mapM_length: "mapM f xs s = Some (Inr ys, s') \<Longrightarrow> length ys = length xs"
proof (induction xs arbitrary: ys s)
  case Nil
  then show ?case by (simp add: ret_def)
next
  case (Cons x xs)
  from Cons.prems obtain y s1 where
    "f x s = Some (Inr y, s1)"
    "andThen (mapM f xs) (\<lambda>ys. ret (y # ys)) s1 = Some (Inr ys, s')"
    by (auto simp: andThen_def split: option.splits sum.splits prod.splits)
  then obtain zs where "mapM f xs s1 = Some (Inr zs, s')" "ys = y # zs"
    by (auto simp: andThen_def ret_def split: option.splits sum.splits prod.splits)
  with Cons.IH show ?case by simp
qed

lemma gatherFields_plain:
  assumes "''__call'' \<notin> fst ` set mems" and "''__index'' \<notin> fst ` set mems"
  shows "gatherFields tr T mems (c, i, acc) =
           andThen (mapM (\<lambda>m. tr (getTypeOfSymbolAtLocation (typeChecker T) m)) (map snd mems))
             (\<lambda>strs. ret (c, i, acc @ map2 (\<lambda>f str. f @ '': '' @ str) (map fst mems) strs))"
  using assms
proof (induction mems arbitrary: acc)
  case Nil
  show ?case by (rule ext) simp
next
  case (Cons fm mems)
  obtain f m where fm: "fm = (f, m)" by (cases fm)
  from Cons.prems fm have f: "f \<noteq> ''__call''" "f \<noteq> ''__index''"
    and rest: "''__call'' \<notin> fst ` set mems" "''__index'' \<notin> fst ` set mems"
    by auto
  show ?case
    unfolding fm
    by (rule ext) (simp add: f Cons.IH [OF rest] andThen_assoc)
qed

text \<open>
  C4. A type literal not visited before, with a member table and no construct
  signature, with at least one member and neither a \<^verbatim>\<open>__call\<close> nor an \<^verbatim>\<open>__index\<close>
  member, whose member types are all translated, is rendered as the record
  \<^verbatim>\<open>{name: type, ...}\<close> in the order of the member table.
\<close>

theorem translateTypeLiteral_record:
  assumes "t \<notin> set (seenTypes s)"
    and "symbol (typeAt (typeChecker T) t) = Some sy"
    and "members (symbolAt (typeChecker T) sy) = Some mems"
    and "getSignaturesOfType (typeChecker T) t Construct = []"
    and "mems \<noteq> []"
    and "''__call'' \<notin> fst ` set mems"
    and "''__index'' \<notin> fst ` set mems"
    and "mapM (\<lambda>m. tr (getTypeOfSymbolAtLocation (typeChecker T) m)) (map snd mems)
           (s\<lparr>seenTypes := seenTypes s @ [t]\<rparr>) = Some (Inr strs, s')"
  shows "translateTypeLiteral tr T t s =
           Some (Inr (''{'' @
                      join '', '' (map2 (\<lambda>f str. f @ '': '' @ str) (map fst mems) strs) @
                      ''}''), s')"
proof -
  from assms(8) have "length strs = length mems"
    by (auto dest: mapM_length)
  with assms(5) have nonempty: "strs \<noteq> []"
    by (cases mems; cases strs) auto
  have unseen: "indexOf (seenTypes s) t = -1"
    using assms(1) by (rule indexOf_notin)
  have run: "andThen
               (mapM (\<lambda>m. tr (getTypeOfSymbolAtLocation (typeChecker T) m)) (map snd mems)) k
               (s\<lparr>seenTypes := seenTypes s @ [t]\<rparr>) = k strs s'" for k :: "string list \<Rightarrow> string comp"
    using assms(8) by (simp add: andThen_def)
  show ?thesis
    unfolding translateTypeLiteral_def expandTypeLiteral_def Let_def
    apply (simp add: unseen assms(2,3,4))
    apply (simp add: gatherFields_plain [OF assms(6,7)] andThen_assoc)
    apply (simp add: run nonempty assms(5) plainObject_def ret_def)
    done
qed

theorem translateTypeLiteral_record_counterexample:
  "members (symbolAt (typeChecker demoPlain) 5) = Some [(''__call'', 13), (''foo'', 12)] \<and>
   symbol (typeAt (typeChecker demoPlain) 14) = Some 5 \<and>
   getSignaturesOfType (typeChecker demoPlain) 14 Construct = [] \<and>
   translateTypeLiteral (translate 1 demoPlain) demoPlain 14 freshState =
     Some (Inr ''?'', \<lparr>seenTypes = [14], warnings = [UnhandledTypeLiteral]\<rparr>)"
  by code_simp

theorem translateTypeLiteral_record_witness:
  "5 \<notin> set (seenTypes freshState) \<and>
   symbol (typeAt (typeChecker demoPlain) 5) = Some 3 \<and>
   members (symbolAt (typeChecker demoPlain) 3) = Some [(''a'', 10), (''b'', 11)] \<and>
   getSignaturesOfType (typeChecker demoPlain) 5 Construct = [] \<and>
   translateTypeLiteral (translate 2 demoPlain) demoPlain 5 freshState =
     Some (Inr ''{a: number, b: (string|undefined)}'', \<lparr>seenTypes = [5], warnings = []\<rparr>)"
proof -
  have h1: "5 \<notin> set (seenTypes freshState)"
    by (simp add: freshState_def)
  have h2: "symbol (typeAt (typeChecker demoPlain) 5) = Some 3"
    by code_simp
  have h3: "members (symbolAt (typeChecker demoPlain) 3) = Some [(''a'', 10), (''b'', 11)]"
    by code_simp
  have h4: "getSignaturesOfType (typeChecker demoPlain) 5 Construct = []"
    by code_simp
  have h5: "[(''a'', 10 :: nat), (''b'', 11)] \<noteq> []"
    by simp
  have h6: "''__call'' \<notin> fst ` set [(''a'', 10 :: nat), (''b'', 11)]"
    by simp
  have h7: "''__index'' \<notin> fst ` set [(''a'', 10 :: nat), (''b'', 11)]"
    by simp
  have h8: "mapM (\<lambda>m. translate 2 demoPlain (getTypeOfSymbolAtLocation (typeChecker demoPlain) m))
              (map snd [(''a'', 10 :: nat), (''b'', 11)])
              (freshState\<lparr>seenTypes := seenTypes freshState @ [5]\<rparr>) =
            Some (Inr [''number'', ''(string|undefined)''], \<lparr>seenTypes = [5], warnings = []\<rparr>)"
    by code_simp
  from translateTypeLiteral_record [OF h1 h2 h3 h4 h5 h6 h7 h8] h1 h2 h3 h4
  show ?thesis by simp
qed

section \<open>The visited set only grows\<close>

lemma growsD: "grows m \<Longrightarrow> m s = Some (r, s') \<Longrightarrow> set (seenTypes s) \<subseteq> set (seenTypes s')"
  unfolding grows_def by blast

lemma grows_ret: "grows (ret x)"
  by (simp add: grows_def ret_def)

lemma grows_throw: "grows (throw e)"
  by (simp add: grows_def throw_def)

lemma grows_warn: "grows (warn w)"
  by (auto simp: grows_def warn_def)

lemma grows_seenTypesIndexOf: "grows (seenTypesIndexOf t)"
  by (auto simp: grows_def seenTypesIndexOf_def)

lemma grows_seenTypesPush: "grows (seenTypesPush t)"
  by (auto simp: grows_def seenTypesPush_def)

lemma grows_andThen:
  assumes "grows m" and "\<And>x. grows (f x)"
  shows "grows (andThen m f)"
  unfolding grows_def
proof (intro allI impI)
  fix s r s'
  assume run: "andThen m f s = Some (r, s')"
  show "set (seenTypes s) \<subseteq> set (seenTypes s')"
  proof (cases "m s")
    case None
    with run show ?thesis by (simp add: andThen_def)
  next
    case (Some p)
    obtain r1 s1 where p: "p = (r1, s1)" by (cases p)
    from Some p assms(1) have first: "set (seenTypes s) \<subseteq> set (seenTypes s1)"
      by (auto dest: growsD)
    show ?thesis
    proof (cases r1)
      case (Inl e)
      with run Some p have "s' = s1" by (simp add: andThen_def)
      with first show ?thesis by simp
    next
      case (Inr x)
      with run Some p have "f x s1 = Some (r, s')" by (simp add: andThen_def)
      with assms(2) have "set (seenTypes s1) \<subseteq> set (seenTypes s')"
        by (auto dest: growsD)
      with first show ?thesis by blast
    qed
  qed
qed

lemma grows_mapM:
  assumes "\<And>x. grows (f x)"
  shows "grows (mapM f xs)"
proof (induction xs)
  case Nil
  have "mapM f [] = ret []" by (rule ext) simp
  then show ?case by (simp add: grows_ret)
next
  case (Cons x xs)
  have "mapM f (x # xs) = andThen (f x) (\<lambda>y. andThen (mapM f xs) (\<lambda>ys. ret (y # ys)))"
    by (rule ext) simp
  with Cons assms show ?case by (simp add: grows_andThen grows_ret)
qed

lemma grows_if: "grows a \<Longrightarrow> grows b \<Longrightarrow> grows (if c then a else b)"
  by simp

lemma grows_case_option:
  "grows a \<Longrightarrow> (\<And>y. grows (b y)) \<Longrightarrow> grows (case x of None \<Rightarrow> a | Some y \<Rightarrow> b y)"
  by (cases x) simp_all

lemma grows_case_prod: "(\<And>a b. grows (f a b)) \<Longrightarrow> grows (case p of (a, b) \<Rightarrow> f a b)"
  by (cases p) simp

lemmas grows_intros =
  grows_ret grows_throw grows_warn grows_seenTypesIndexOf grows_seenTypesPush
  grows_andThen grows_mapM grows_if grows_case_option grows_case_prod

lemma grows_isBlackListed: "grows (isBlackListed T smb)"
  unfolding isBlackListed_def by (intro grows_intros)

lemma grows_convertParams:
  "(\<And>t. grows (tr t)) \<Longrightarrow> grows (convertParams tr T sig)"
  by (simp add: convertParams_def grows_mapM)

lemma grows_signatureToClosure:
  assumes "\<And>t. grows (tr t)"
  shows "grows (signatureToClosure tr T sig)"
  unfolding signatureToClosure_def Let_def
  by (intro grows_intros grows_convertParams assms)

lemma grows_translateUnion:
  assumes "\<And>t. grows (tr t)"
  shows "grows (translateUnion tr T t)"
  unfolding translateUnion_def Let_def
  by (intro grows_intros assms)

lemma grows_plainObject: "grows (plainObject callable indexable flds)"
  unfolding plainObject_def by (intro grows_intros)

lemma grows_gatherFields:
  assumes "\<And>t. grows (tr t)"
  shows "grows (gatherFields tr T mems acc)"
proof (induction mems arbitrary: acc)
  case Nil
  have "gatherFields tr T [] acc = ret acc" by (rule ext) simp
  then show ?case by (simp add: grows_ret)
next
  case (Cons fm mems)
  obtain f m where fm: "fm = (f, m)" by (cases fm)
  obtain c i flds where acc: "acc = (c, i, flds)" by (cases acc)
  have "gatherFields tr T ((f, m) # mems) (c, i, flds) =
          (if f = ''__call'' then gatherFields tr T mems (True, i, flds)
           else if f = ''__index'' then gatherFields tr T mems (c, True, flds)
           else andThen (tr (getTypeOfSymbolAtLocation (typeChecker T) m))
                  (\<lambda>memberType. gatherFields tr T mems (c, i, flds @ [f @ '': '' @ memberType])))"
    by (rule ext) simp
  then show ?case
    unfolding fm acc by (simp only:) (intro grows_intros Cons.IH assms)
qed

lemma grows_expandTypeLiteral:
  assumes "\<And>t. grows (tr t)"
  shows "grows (expandTypeLiteral tr T t)"
  unfolding expandTypeLiteral_def Let_def
  by (intro grows_intros grows_convertParams grows_gatherFields grows_signatureToClosure
        grows_plainObject assms)

lemma grows_translateTypeLiteral:
  assumes "\<And>t. grows (tr t)"
  shows "grows (translateTypeLiteral tr T t)"
  unfolding translateTypeLiteral_def
  by (intro grows_intros grows_expandTypeLiteral assms)

lemma grows_translateObject:
  assumes "\<And>t. grows (tr t)"
  shows "grows (translateObject tr T t)"
  unfolding translateObject_def Let_def
  by (intro grows_intros grows_isBlackListed grows_translateTypeLiteral
        grows_signatureToClosure assms)

lemma grows_translateBody:
  assumes "\<And>t. grows (tr t)"
  shows "grows (translateBody tr T t)"
  unfolding translateBody_def Let_def
  by (intro grows_intros grows_translateObject grows_translateUnion assms)

lemma grows_translate: "grows (translate n T t)"
proof (induction n arbitrary: t)
  case 0
  show ?case by (simp add: grows_def)
next
  case (Suc n)
  have "translate (Suc n) T t = translateBody (translate n T) T t"
    by (rule ext) simp
  with Suc grows_translateBody show ?case by simp
qed


section \<open>The guard against recursive type literals\<close>

lemma translateTypeLiteral_seen:
  "t \<in> set (seenTypes s) \<Longrightarrow> translateTypeLiteral tr T t s = Some (Inr ''?'', s)"
  by (simp add: translateTypeLiteral_def indexOf_seen ret_def)

lemma translateTypeLiteral_unseen:
  "t \<notin> set (seenTypes s) \<Longrightarrow>
     translateTypeLiteral tr T t s =
       expandTypeLiteral tr T t (s\<lparr>seenTypes := seenTypes s @ [t]\<rparr>)"
  by (simp add: translateTypeLiteral_def indexOf_notin)

lemma translateTypeLiteral_marks:
  assumes "translateTypeLiteral (translate k T) T t s = Some (r, s')"
  shows "t \<in> set (seenTypes s')"
proof (cases "t \<in> set (seenTypes s)")
  case True
  with assms show ?thesis by (simp add: translateTypeLiteral_seen)
next
  case False
  with assms have
    "expandTypeLiteral (translate k T) T t (s\<lparr>seenTypes := seenTypes s @ [t]\<rparr>) = Some (r, s')"
    by (simp add: translateTypeLiteral_unseen)
  then have "set (seenTypes (s\<lparr>seenTypes := seenTypes s @ [t]\<rparr>)) \<subseteq> set (seenTypes s')"
    by (rule growsD [OF grows_expandTypeLiteral, OF grows_translate])
  then show ?thesis by simp
qed

lemma isBlackListed_result:
  "\<exists>b s'. isBlackListed T smb s = Some (Inr b, s') \<and> seenTypes s' = seenTypes s"
  by (auto simp: isBlackListed_def ret_def split: option.splits)

lemma translate_seen_type_literal:
  assumes seen: "t \<in> set (seenTypes s)"
    and obj: "flags (typeAt (typeChecker T) t) AND flagMask = TypeFlags_Object"
    and cls: "objectFlags (typeAt (typeChecker T) t) AND ObjectFlags_Class = 0"
    and ifc: "objectFlags (typeAt (typeChecker T) t) AND ObjectFlags_Interface = 0"
    and ref: "objectFlags (typeAt (typeChecker T) t) AND ObjectFlags_Reference = 0"
    and anon: "objectFlags (typeAt (typeChecker T) t) AND ObjectFlags_Anonymous \<noteq> 0"
    and sy: "symbol (typeAt (typeChecker T) t) = Some sy"
    and lit: "symFlags (symbolAt (typeChecker T) sy) = SymbolFlags_TypeLiteral"
  shows "\<exists>s'. translate (Suc n) T t s = Some (Inr ''?'', s') \<and> seenTypes s' = seenTypes s"
proof -
  obtain b s1 where bl: "isBlackListed T (symbolAt (typeChecker T) sy) s = Some (Inr b, s1)"
    and s1: "seenTypes s1 = seenTypes s"
    using isBlackListed_result by blast
  from seen s1 have "translateTypeLiteral (translate n T) T t s1 = Some (Inr ''?'', s1)"
    by (simp add: translateTypeLiteral_seen)
  then have "translateObject (translate n T) T t s = Some (Inr ''?'', s1)"
    by (simp add: translateObject_def Let_def sy cls ifc ref anon lit ret_def
        andThen_Inr [where m = "isBlackListed T (symbolAt (typeChecker T) sy)", OF bl])
  then have "translate (Suc n) T t s = Some (Inr ''?'', s1)"
    by (simp add: translateBody_def Let_def obj TypeFlags_defs)
  with s1 show ?thesis by blast
qed

text \<open>
  C1. A type literal found in \<^verbatim>\<open>seenTypes\<close> is answered with \<^verbatim>\<open>?\<close> at once: the state
  is left as it was and the result does not depend on \<open>tr\<close>, so no member is translated.
  A call of \<^verbatim>\<open>translateTypeLiteral\<close> leaves its type in \<^verbatim>\<open>seenTypes\<close>, and no call of
  \<^verbatim>\<open>translate\<close> on the instance, of whatever type and whatever its outcome, removes it;
  so the literal is answered with \<^verbatim>\<open>?\<close> after any later top-level call, also when it is
  reached through \<^verbatim>\<open>translate\<close> itself as an anonymous object type whose symbol is a
  type literal.
\<close>

theorem seen_type_literal_is_unknown:
  "(t \<in> set (seenTypes s) \<longrightarrow> translateTypeLiteral tr T t s = Some (Inr ''?'', s)) \<and>
   (translateTypeLiteral (translate k T) T t s0 = Some (r0, s) \<longrightarrow> t \<in> set (seenTypes s)) \<and>
   (t \<in> set (seenTypes s) \<and> translate n T u s = Some (r, s') \<longrightarrow>
      t \<in> set (seenTypes s') \<and> translateTypeLiteral tr T t s' = Some (Inr ''?'', s')) \<and>
   (t \<in> set (seenTypes s) \<and>
    flags (typeAt (typeChecker T) t) AND flagMask = TypeFlags_Object \<and>
    objectFlags (typeAt (typeChecker T) t) AND ObjectFlags_Class = 0 \<and>
    objectFlags (typeAt (typeChecker T) t) AND ObjectFlags_Interface = 0 \<and>
    objectFlags (typeAt (typeChecker T) t) AND ObjectFlags_Reference = 0 \<and>
    objectFlags (typeAt (typeChecker T) t) AND ObjectFlags_Anonymous \<noteq> 0 \<and>
    symbol (typeAt (typeChecker T) t) = Some sy \<and>
    symFlags (symbolAt (typeChecker T) sy) = SymbolFlags_TypeLiteral \<longrightarrow>
      (\<exists>s1. translate (Suc m) T t s = Some (Inr ''?'', s1) \<and> seenTypes s1 = seenTypes s))"
proof (intro conjI impI)
  assume "t \<in> set (seenTypes s)"
  then show "translateTypeLiteral tr T t s = Some (Inr ''?'', s)"
    by (rule translateTypeLiteral_seen)
next
  assume "translateTypeLiteral (translate k T) T t s0 = Some (r0, s)"
  then show "t \<in> set (seenTypes s)"
    by (rule translateTypeLiteral_marks)
next
  assume a: "t \<in> set (seenTypes s) \<and> translate n T u s = Some (r, s')"
  then have "set (seenTypes s) \<subseteq> set (seenTypes s')"
    using growsD [OF grows_translate] by blast
  with a show "t \<in> set (seenTypes s')" by blast
  then show "translateTypeLiteral tr T t s' = Some (Inr ''?'', s')"
    by (rule translateTypeLiteral_seen)
next
  assume "t \<in> set (seenTypes s) \<and>
    flags (typeAt (typeChecker T) t) AND flagMask = TypeFlags_Object \<and>
    objectFlags (typeAt (typeChecker T) t) AND ObjectFlags_Class = 0 \<and>
    objectFlags (typeAt (typeChecker T) t) AND ObjectFlags_Interface = 0 \<and>
    objectFlags (typeAt (typeChecker T) t) AND ObjectFlags_Reference = 0 \<and>
    objectFlags (typeAt (typeChecker T) t) AND ObjectFlags_Anonymous \<noteq> 0 \<and>
    symbol (typeAt (typeChecker T) t) = Some sy \<and>
    symFlags (symbolAt (typeChecker T) sy) = SymbolFlags_TypeLiteral"
  then show "\<exists>s1. translate (Suc m) T t s = Some (Inr ''?'', s1) \<and> seenTypes s1 = seenTypes s"
    using translate_seen_type_literal by blast
qed


theorem seen_type_literal_is_unknown_witness:
  "translateTypeLiteral (translate 2 demoPlain) demoPlain 5 freshState =
     Some (Inr ''{a: number, b: (string|undefined)}'', \<lparr>seenTypes = [5], warnings = []\<rparr>) \<and>
   5 \<in> set (seenTypes \<lparr>seenTypes = [5], warnings = []\<rparr>) \<and>
   translate 3 demoPlain 4 \<lparr>seenTypes = [5], warnings = []\<rparr> =
     Some (Inr ''!Array<number>'', \<lparr>seenTypes = [5], warnings = []\<rparr>) \<and>
   translateTypeLiteral (\<lambda>u s. None) demoPlain 5 \<lparr>seenTypes = [5], warnings = []\<rparr> =
     Some (Inr ''?'', \<lparr>seenTypes = [5], warnings = []\<rparr>) \<and>
   flags (typeAt (typeChecker demoPlain) 5) AND flagMask = TypeFlags_Object \<and>
   objectFlags (typeAt (typeChecker demoPlain) 5) AND ObjectFlags_Class = 0 \<and>
   objectFlags (typeAt (typeChecker demoPlain) 5) AND ObjectFlags_Interface = 0 \<and>
   objectFlags (typeAt (typeChecker demoPlain) 5) AND ObjectFlags_Reference = 0 \<and>
   objectFlags (typeAt (typeChecker demoPlain) 5) AND ObjectFlags_Anonymous \<noteq> 0 \<and>
   symbol (typeAt (typeChecker demoPlain) 5) = Some 3 \<and>
   symFlags (symbolAt (typeChecker demoPlain) 3) = SymbolFlags_TypeLiteral \<and>
   (\<exists>s1. translate (Suc 0) demoPlain 5 \<lparr>seenTypes = [5], warnings = []\<rparr> = Some (Inr ''?'', s1) \<and>
         seenTypes s1 = seenTypes \<lparr>seenTypes = [5], warnings = []\<rparr>)"
proof -
  let ?st = "\<lparr>seenTypes = [5], warnings = []\<rparr>"
  have first: "translateTypeLiteral (translate 2 demoPlain) demoPlain 5 freshState =
                 Some (Inr ''{a: number, b: (string|undefined)}'', ?st)"
    by code_simp
  have later: "translate 3 demoPlain 4 ?st = Some (Inr ''!Array<number>'', ?st)"
    by code_simp
  have h1: "flags (typeAt (typeChecker demoPlain) 5) AND flagMask = TypeFlags_Object"
    by code_simp
  have h2: "objectFlags (typeAt (typeChecker demoPlain) 5) AND ObjectFlags_Class = 0"
    by code_simp
  have h3: "objectFlags (typeAt (typeChecker demoPlain) 5) AND ObjectFlags_Interface = 0"
    by code_simp
  have h4: "objectFlags (typeAt (typeChecker demoPlain) 5) AND ObjectFlags_Reference = 0"
    by code_simp
  have h5: "objectFlags (typeAt (typeChecker demoPlain) 5) AND ObjectFlags_Anonymous \<noteq> 0"
    by code_simp
  have h6: "symbol (typeAt (typeChecker demoPlain) 5) = Some 3"
    by code_simp
  have h7: "symFlags (symbolAt (typeChecker demoPlain) 3) = SymbolFlags_TypeLiteral"
    by code_simp
  from seen_type_literal_is_unknown
         [where t = 5 and s = ?st and tr = "\<lambda>u s. None" and T = demoPlain and k = 2
            and ?s0.0 = freshState and ?r0.0 = "Inr ''{a: number, b: (string|undefined)}''"
            and n = 3 and u = 4 and r = "Inr ''!Array<number>''" and s' = ?st and sy = 3
            and m = 0]
    first later h1 h2 h3 h4 h5 h6 h7
  show ?thesis by simp
qed

section \<open>Every string returned is non-empty\<close>

lemma andThen_InrD:
  assumes "andThen m f s = Some (Inr y, s')"
  obtains x s1 where "m s = Some (Inr x, s1)" and "f x s1 = Some (Inr y, s')"
  using assms by (auto simp: andThen_def split: option.splits sum.splits prod.splits)

lemma yieldsD: "yields m Q \<Longrightarrow> m s = Some (Inr x, s') \<Longrightarrow> Q x"
  unfolding yields_def by blast

lemma yields_ret: "Q x \<Longrightarrow> yields (ret x) Q"
  by (simp add: yields_def ret_def)

lemma yields_throw: "yields (throw e) Q"
  by (simp add: yields_def throw_def)

lemma yields_andThen:
  assumes "yields m P" and "\<And>x. P x \<Longrightarrow> yields (f x) Q"
  shows "yields (andThen m f) Q"
  unfolding yields_def
proof (intro allI impI)
  fix s y s'
  assume "andThen m f s = Some (Inr y, s')"
  then obtain x s1 where m: "m s = Some (Inr x, s1)" and f: "f x s1 = Some (Inr y, s')"
    by (rule andThen_InrD)
  from assms(1) m have "P x" by (rule yieldsD)
  then have "yields (f x) Q" by (rule assms(2))
  from this f show "Q y" by (rule yieldsD)
qed

lemma yields_True: "yields m (\<lambda>x. True)"
  by (simp add: yields_def)

lemma yields_andThen_any: "(\<And>x. yields (f x) Q) \<Longrightarrow> yields (andThen m f) Q"
  by (rule yields_andThen [OF yields_True])

lemma yields_mapM:
  assumes "\<And>x. yields (f x) P"
  shows "yields (mapM f xs) (\<lambda>ys. \<forall>y \<in> set ys. P y)"
proof (induction xs)
  case Nil
  have "mapM f [] = ret []" by (rule ext) simp
  then show ?case by (simp add: yields_ret)
next
  case (Cons x xs)
  have eq: "mapM f (x # xs) = andThen (f x) (\<lambda>y. andThen (mapM f xs) (\<lambda>ys. ret (y # ys)))"
    by (rule ext) simp
  show ?case
    unfolding eq
  proof (rule yields_andThen [OF assms])
    fix y
    assume "P y"
    then show "yields (andThen (mapM f xs) (\<lambda>ys. ret (y # ys))) (\<lambda>ys. \<forall>y \<in> set ys. P y)"
      by (intro yields_andThen [OF Cons.IH] yields_ret) simp
  qed
qed

lemma yields_if: "yields a Q \<Longrightarrow> yields b Q \<Longrightarrow> yields (if c then a else b) Q"
  by simp

lemma yields_case_option:
  "yields a Q \<Longrightarrow> (\<And>y. yields (b y) Q) \<Longrightarrow>
     yields (case x of None \<Rightarrow> a | Some y \<Rightarrow> b y) Q"
  by (cases x) simp_all

lemma yields_case_prod:
  "(\<And>a b. yields (f a b) Q) \<Longrightarrow> yields (case p of (a, b) \<Rightarrow> f a b) Q"
  by (cases p) simp

lemma yields_case_triple:
  "(\<And>a b c. yields (f a b c) Q) \<Longrightarrow> yields (case p of (a, b, c) \<Rightarrow> f a b c) Q"
  by (cases p) simp

lemmas yields_intros =
  yields_ret yields_throw yields_if yields_case_option yields_case_triple yields_case_prod
  yields_andThen_any

lemma nonempty_signatureToClosure:
  "yields (signatureToClosure tr T sig) (\<lambda>str. str \<noteq> [])"
  unfolding signatureToClosure_def Let_def
  by (intro yields_intros) simp

lemma nonempty_plainObject: "yields (plainObject callable indexable flds) (\<lambda>str. str \<noteq> [])"
  unfolding plainObject_def by (intro yields_intros) simp_all

lemma nonempty_translateUnion:
  assumes "\<And>u. yields (tr u) (\<lambda>str. str \<noteq> [])"
  shows "yields (translateUnion tr T t) (\<lambda>str. str \<noteq> [])"
  unfolding translateUnion_def Let_def dedup_keepFirst
proof (rule yields_andThen [OF yields_mapM, OF assms])
  fix parts :: "string list"
  assume all: "\<forall>p \<in> set parts. p \<noteq> []"
  show "yields (ret (if length (keepFirst parts) = 1 then keepFirst parts ! 0
                     else ''('' @ join ''|'' (keepFirst parts) @ '')'')) (\<lambda>str. str \<noteq> [])"
  proof (cases "length (keepFirst parts) = 1")
    case True
    then have "keepFirst parts ! 0 \<in> set (keepFirst parts)" by simp
    with all have "keepFirst parts ! 0 \<noteq> []" by (simp add: set_keepFirst)
    with True show ?thesis by (simp add: yields_ret)
  next
    case False
    then show ?thesis by (simp add: yields_ret)
  qed
qed

lemma nonempty_expandTypeLiteral:
  "yields (expandTypeLiteral tr T t) (\<lambda>str. str \<noteq> [])"
  unfolding expandTypeLiteral_def Let_def
  by (intro yields_intros nonempty_signatureToClosure nonempty_plainObject) simp_all

lemma nonempty_translateTypeLiteral:
  "yields (translateTypeLiteral tr T t) (\<lambda>str. str \<noteq> [])"
  unfolding translateTypeLiteral_def
  by (intro yields_intros nonempty_expandTypeLiteral) simp_all

lemma nonempty_reference:
  assumes "\<And>u. yields (tr u) (\<lambda>str. str \<noteq> [])"
  shows "yields
           (andThen (tr tgt) (\<lambda>typeStr.
              case targs of
                None \<Rightarrow> ret typeStr
              | Some args \<Rightarrow>
                  andThen (mapM tr args) (\<lambda>params.
                    ret (typeStr @ ''<'' @ join '', '' params @ ''>''))))
           (\<lambda>str. str \<noteq> [])"
  by (rule yields_andThen [OF assms]) (intro yields_intros, simp_all)

lemma nonempty_translateObject:
  assumes "\<And>u. yields (tr u) (\<lambda>str. str \<noteq> [])"
  shows "yields (translateObject tr T t) (\<lambda>str. str \<noteq> [])"
  unfolding translateObject_def Let_def
  by (intro nonempty_reference [OF assms] nonempty_translateTypeLiteral
        nonempty_signatureToClosure yields_intros) simp_all

lemma nonempty_translateBody:
  assumes "\<And>u. yields (tr u) (\<lambda>str. str \<noteq> [])"
  shows "yields (translateBody tr T t) (\<lambda>str. str \<noteq> [])"
  unfolding translateBody_def Let_def
  by (intro nonempty_translateObject nonempty_translateUnion assms yields_intros) simp_all

lemma nonempty_translate: "yields (translate n T t) (\<lambda>str. str \<noteq> [])"
proof (induction n arbitrary: t)
  case 0
  show ?case by (simp add: yields_def)
next
  case (Suc n)
  have "translate (Suc n) T t = translateBody (translate n T) T t"
    by (rule ext) simp
  with Suc nonempty_translateBody show ?case by simp
qed

text \<open>
  C9. A string returned by \<^verbatim>\<open>translate\<close> is never empty. So in \<^verbatim>\<open>signatureToClosure\<close>
  the test \<^verbatim>\<open>if (retType)\<close> always succeeds: every signature rendered ends with
  \<^verbatim>\<open>: \<close> and the translated return type.
\<close>

theorem translate_nonempty:
  "(translate n T t s = Some (Inr str, s') \<longrightarrow> str \<noteq> []) \<and>
   (signatureToClosure (translate n T) T sig s = Some (Inr str, s') \<longrightarrow>
      (\<exists>params s1 retType.
         convertParams (translate n T) T sig s = Some (Inr params, s1) \<and>
         translate n T (returnType sig) s1 = Some (Inr retType, s') \<and>
         retType \<noteq> [] \<and>
         str = ''function('' @ join '', '' params @ '')'' @ '': '' @ retType))"
proof (intro conjI impI)
  assume "translate n T t s = Some (Inr str, s')"
  with nonempty_translate show "str \<noteq> []" by (rule yieldsD)
next
  assume "signatureToClosure (translate n T) T sig s = Some (Inr str, s')"
  then obtain params s1 where
    cp: "convertParams (translate n T) T sig s = Some (Inr params, s1)" and
    rest: "andThen (translate n T (returnType sig))
             (\<lambda>retType. ret (if retType \<noteq> []
                              then (''function('' @ join '', '' params @ '')'') @ '': '' @ retType
                              else ''function('' @ join '', '' params @ '')'')) s1 =
           Some (Inr str, s')"
    unfolding signatureToClosure_def Let_def by (rule andThen_InrD)
  from rest obtain retType s2 where
    rt: "translate n T (returnType sig) s1 = Some (Inr retType, s2)" and
    fin: "ret (if retType \<noteq> []
               then (''function('' @ join '', '' params @ '')'') @ '': '' @ retType
               else ''function('' @ join '', '' params @ '')'') s2 = Some (Inr str, s')"
    by (rule andThen_InrD)
  from nonempty_translate rt have ne: "retType \<noteq> []" by (rule yieldsD)
  with fin have "s2 = s'" "str = ''function('' @ join '', '' params @ '')'' @ '': '' @ retType"
    by (simp_all add: ret_def)
  with cp rt ne
  show "\<exists>params s1 retType.
         convertParams (translate n T) T sig s = Some (Inr params, s1) \<and>
         translate n T (returnType sig) s1 = Some (Inr retType, s') \<and>
         retType \<noteq> [] \<and>
         str = ''function('' @ join '', '' params @ '')'' @ '': '' @ retType"
    by blast
qed


theorem translate_nonempty_witness:
  "translate 3 demoPlain 4 freshState = Some (Inr ''!Array<number>'', freshState) \<and>
   ''!Array<number>'' \<noteq> [] \<and>
   signatureToClosure (translate 2 demoPlain) demoPlain \<lparr>parameters = [11], returnType = 0\<rparr>
     freshState = Some (Inr ''function((string|undefined)): number'', freshState) \<and>
   (\<exists>params s1 retType.
      convertParams (translate 2 demoPlain) demoPlain \<lparr>parameters = [11], returnType = 0\<rparr>
        freshState = Some (Inr params, s1) \<and>
      translate 2 demoPlain (returnType \<lparr>parameters = [11], returnType = 0\<rparr>) s1 =
        Some (Inr retType, freshState) \<and>
      retType \<noteq> [] \<and>
      ''function((string|undefined)): number'' =
        ''function('' @ join '', '' params @ '')'' @ '': '' @ retType)"
proof -
  have a: "translate 3 demoPlain 4 freshState = Some (Inr ''!Array<number>'', freshState)"
    by code_simp
  have b: "signatureToClosure (translate 2 demoPlain) demoPlain
             \<lparr>parameters = [11], returnType = 0\<rparr> freshState =
           Some (Inr ''function((string|undefined)): number'', freshState)"
    by code_simp
  from translate_nonempty
         [where n = 3 and T = demoPlain and t = 4 and s = freshState
            and str = "''!Array<number>''" and s' = freshState]
    translate_nonempty
         [where n = 2 and T = demoPlain and s = freshState
            and sig = "\<lparr>parameters = [11], returnType = 0\<rparr>"
            and str = "''function((string|undefined)): number''" and s' = freshState]
    a b
  show ?thesis by blast
qed

section \<open>Object types\<close>

lemma translateObject_no_symbol:
  assumes "symbol (typeAt (typeChecker T) t) = None"
  shows "translateObject tr T t s =
    (if objectFlags (typeAt (typeChecker T) t) AND ObjectFlags_Class \<noteq> 0 then
       andThen (warn ClassHasNoSymbol) (\<lambda>_. ret ''?'')
     else if objectFlags (typeAt (typeChecker T) t) AND ObjectFlags_Interface \<noteq> 0 then
       andThen (warn InterfaceHasNoSymbol) (\<lambda>_. ret ''?'')
     else if objectFlags (typeAt (typeChecker T) t) AND ObjectFlags_Reference \<noteq> 0 then
       (if objectFlags (typeAt (typeChecker T) (target (typeAt (typeChecker T) t))) AND
           ObjectFlags_Tuple \<noteq> 0
        then ret ''!Array<?>''
        else if target (typeAt (typeChecker T) t) = t then throw (ReferenceLoop t)
        else
          andThen (tr (target (typeAt (typeChecker T) t))) (\<lambda>typeStr.
            case typeArguments (typeAt (typeChecker T) t) of
              None \<Rightarrow> ret typeStr
            | Some args \<Rightarrow>
                andThen (mapM tr args) (\<lambda>params.
                  ret (typeStr @ ''<'' @ join '', '' params @ ''>''))))
     else if objectFlags (typeAt (typeChecker T) t) AND ObjectFlags_Anonymous \<noteq> 0 then
       andThen (warn AnonymousTypeHasNoSymbol) (\<lambda>_. ret ''?'')
     else andThen (warn (UnhandledType t)) (\<lambda>_. ret ''?'')) s"
  by (simp add: translateObject_def Let_def assms)

lemma translateObject_not_blacklisted:
  assumes "symbol (typeAt (typeChecker T) t) = Some sy"
    and "isBlackListed T (symbolAt (typeChecker T) sy) s = Some (Inr False, s)"
  shows "translateObject tr T t s =
    (if objectFlags (typeAt (typeChecker T) t) AND ObjectFlags_Class \<noteq> 0 then
       ret (''!'' @ symbolToString T sy)
     else if objectFlags (typeAt (typeChecker T) t) AND ObjectFlags_Interface \<noteq> 0 then
       (if symFlags (symbolAt (typeChecker T) sy) AND SymbolFlags_Value \<noteq> 0 \<and>
           \<not> isClosureProvidedType (symbolAt (typeChecker T) sy)
        then andThen (warn (TypeSymbolConflict (symName (symbolAt (typeChecker T) sy))))
               (\<lambda>_. ret ''?'')
        else ret (''!'' @ symbolToString T sy))
     else if objectFlags (typeAt (typeChecker T) t) AND ObjectFlags_Reference \<noteq> 0 then
       (if objectFlags (typeAt (typeChecker T) (target (typeAt (typeChecker T) t))) AND
           ObjectFlags_Tuple \<noteq> 0
        then ret ''!Array<?>''
        else if target (typeAt (typeChecker T) t) = t then throw (ReferenceLoop t)
        else
          andThen (tr (target (typeAt (typeChecker T) t))) (\<lambda>typeStr.
            case typeArguments (typeAt (typeChecker T) t) of
              None \<Rightarrow> ret typeStr
            | Some args \<Rightarrow>
                andThen (mapM tr args) (\<lambda>params.
                  ret (typeStr @ ''<'' @ join '', '' params @ ''>''))))
     else if objectFlags (typeAt (typeChecker T) t) AND ObjectFlags_Anonymous \<noteq> 0 then
       (if symFlags (symbolAt (typeChecker T) sy) = SymbolFlags_TypeLiteral
        then translateTypeLiteral tr T t
        else if (symFlags (symbolAt (typeChecker T) sy) = SymbolFlags_Function \<or>
                 symFlags (symbolAt (typeChecker T) sy) = SymbolFlags_Method) \<and>
                length (getSignaturesOfType (typeChecker T) t Call) = 1
        then signatureToClosure tr T (getSignaturesOfType (typeChecker T) t Call ! 0)
        else andThen (warn UnhandledAnonymousType) (\<lambda>_. ret ''?''))
     else andThen (warn (UnhandledType t)) (\<lambda>_. ret ''?'')) s"
  by (simp add: translateObject_def Let_def assms(1)
      andThen_Inr [where m = "isBlackListed T (symbolAt (typeChecker T) sy)", OF assms(2)])

lemma translate_object:
  "flags (typeAt (typeChecker T) t) AND flagMask = TypeFlags_Object \<Longrightarrow>
     translate (Suc n) T t s = translateObject (translate n T) T t s"
  by (simp add: translateBody_def Let_def TypeFlags_defs)

text \<open>
  C2. An object type that is flagged Reference and neither Class nor Interface nor
  Tuple, that is its own target and whose symbol (if any) is not blacklisted, makes
  \<^verbatim>\<open>translate\<close> throw the reference-loop error at once: no string is returned and
  the recursion is not entered.
\<close>

theorem self_reference_throws:
  assumes obj: "flags (typeAt (typeChecker T) t) AND flagMask = TypeFlags_Object"
    and nbl: "\<forall>sy. symbol (typeAt (typeChecker T) t) = Some sy \<longrightarrow>
               isBlackListed T (symbolAt (typeChecker T) sy) s = Some (Inr False, s)"
    and cls: "objectFlags (typeAt (typeChecker T) t) AND ObjectFlags_Class = 0"
    and ifc: "objectFlags (typeAt (typeChecker T) t) AND ObjectFlags_Interface = 0"
    and ref: "objectFlags (typeAt (typeChecker T) t) AND ObjectFlags_Reference \<noteq> 0"
    and tup: "objectFlags (typeAt (typeChecker T) t) AND ObjectFlags_Tuple = 0"
    and self: "target (typeAt (typeChecker T) t) = t"
  shows "translate (Suc n) T t s = Some (Inl (ReferenceLoop t), s)"
proof -
  have step: "translate (Suc n) T t s = translateObject (translate n T) T t s"
    using obj by (rule translate_object)
  show ?thesis
  proof (cases "symbol (typeAt (typeChecker T) t)")
    case None
    then show ?thesis
      unfolding step
      by (simp add: translateObject_no_symbol cls ifc ref tup self throw_def)
  next
    case (Some sy)
    with nbl have "isBlackListed T (symbolAt (typeChecker T) sy) s = Some (Inr False, s)"
      by simp
    with Some show ?thesis
      unfolding step
      by (simp add: translateObject_not_blacklisted cls ifc ref tup self throw_def)
  qed
qed

text \<open>
  The generic interface \<^verbatim>\<open>Array\<close> is flagged Interface and Reference and is its own
  target; the Interface branch comes first and returns its name.
\<close>

theorem self_reference_throws_counterexample:
  "flags (typeAt (typeChecker demoPlain) 3) = TypeFlags_Object \<and>
   objectFlags (typeAt (typeChecker demoPlain) 3) AND ObjectFlags_Reference \<noteq> 0 \<and>
   target (typeAt (typeChecker demoPlain) 3) = 3 \<and>
   translate 2 demoPlain 3 freshState = Some (Inr ''!Array'', freshState)"
  by code_simp

theorem self_reference_throws_witness:
  "flags (typeAt (typeChecker demoPlain) 8) AND flagMask = TypeFlags_Object \<and>
   symbol (typeAt (typeChecker demoPlain) 8) = None \<and>
   objectFlags (typeAt (typeChecker demoPlain) 8) AND ObjectFlags_Class = 0 \<and>
   objectFlags (typeAt (typeChecker demoPlain) 8) AND ObjectFlags_Interface = 0 \<and>
   objectFlags (typeAt (typeChecker demoPlain) 8) AND ObjectFlags_Reference \<noteq> 0 \<and>
   objectFlags (typeAt (typeChecker demoPlain) 8) AND ObjectFlags_Tuple = 0 \<and>
   target (typeAt (typeChecker demoPlain) 8) = 8 \<and>
   translate (Suc 0) demoPlain 8 freshState = Some (Inl (ReferenceLoop 8), freshState)"
proof -
  have obj: "flags (typeAt (typeChecker demoPlain) 8) AND flagMask = TypeFlags_Object"
    by code_simp
  have nosym: "symbol (typeAt (typeChecker demoPlain) 8) = None"
    by code_simp
  then have nbl: "\<forall>sy. symbol (typeAt (typeChecker demoPlain) 8) = Some sy \<longrightarrow>
      isBlackListed demoPlain (symbolAt (typeChecker demoPlain) sy) freshState =
        Some (Inr False, freshState)"
    by simp
  have cls: "objectFlags (typeAt (typeChecker demoPlain) 8) AND ObjectFlags_Class = 0"
    by code_simp
  have ifc: "objectFlags (typeAt (typeChecker demoPlain) 8) AND ObjectFlags_Interface = 0"
    by code_simp
  have ref: "objectFlags (typeAt (typeChecker demoPlain) 8) AND ObjectFlags_Reference \<noteq> 0"
    by code_simp
  have tup: "objectFlags (typeAt (typeChecker demoPlain) 8) AND ObjectFlags_Tuple = 0"
    by code_simp
  have self: "target (typeAt (typeChecker demoPlain) 8) = 8"
    by code_simp
  from self_reference_throws [OF obj nbl cls ifc ref tup self, of 0]
    obj nosym cls ifc ref tup self
  show ?thesis by simp
qed

section \<open>Aliased names\<close>

text \<open>
  C5. A non-empty alias registered for a symbol is what \<^verbatim>\<open>symbolToString\<close> returns, and
  the display builder is not consulted. A Class type of that symbol, and an Interface
  type of it whose symbol is not a value or is declared in a builtin \<^verbatim>\<open>lib.d.ts\<close>, is
  translated to \<^verbatim>\<open>!\<close> followed by the alias when the symbol is not blacklisted; when
  it is blacklisted the translation is \<^verbatim>\<open>?\<close>, alias or not.
\<close>

theorem alias_is_used:
  assumes al: "symbolsToAliasedNames T sy = Some alias"
    and nonempty: "alias \<noteq> []"
    and sy: "symbol (typeAt (typeChecker T) t) = Some sy"
  shows "symbolToString T sy = alias \<and>
    (isBlackListed T (symbolAt (typeChecker T) sy) s = Some (Inr False, s) \<and>
     objectFlags (typeAt (typeChecker T) t) AND ObjectFlags_Class \<noteq> 0 \<longrightarrow>
       translateObject tr T t s = Some (Inr (''!'' @ alias), s)) \<and>
    (isBlackListed T (symbolAt (typeChecker T) sy) s = Some (Inr False, s) \<and>
     objectFlags (typeAt (typeChecker T) t) AND ObjectFlags_Class = 0 \<and>
     objectFlags (typeAt (typeChecker T) t) AND ObjectFlags_Interface \<noteq> 0 \<and>
     (symFlags (symbolAt (typeChecker T) sy) AND SymbolFlags_Value = 0 \<or>
      isClosureProvidedType (symbolAt (typeChecker T) sy)) \<longrightarrow>
       translateObject tr T t s = Some (Inr (''!'' @ alias), s)) \<and>
    (isBlackListed T (symbolAt (typeChecker T) sy) s = Some (Inr True, s1) \<longrightarrow>
       translateObject tr T t s = Some (Inr ''?'', s1))"
proof (intro conjI impI)
  show str: "symbolToString T sy = alias"
    by (simp add: symbolToString_def al nonempty)
  {
    assume "isBlackListed T (symbolAt (typeChecker T) sy) s = Some (Inr False, s) \<and>
      objectFlags (typeAt (typeChecker T) t) AND ObjectFlags_Class \<noteq> 0"
    then show "translateObject tr T t s = Some (Inr (''!'' @ alias), s)"
      by (simp add: translateObject_not_blacklisted [OF sy] str ret_def)
  }
  {
    assume "isBlackListed T (symbolAt (typeChecker T) sy) s = Some (Inr False, s) \<and>
      objectFlags (typeAt (typeChecker T) t) AND ObjectFlags_Class = 0 \<and>
      objectFlags (typeAt (typeChecker T) t) AND ObjectFlags_Interface \<noteq> 0 \<and>
      (symFlags (symbolAt (typeChecker T) sy) AND SymbolFlags_Value = 0 \<or>
       isClosureProvidedType (symbolAt (typeChecker T) sy))"
    then show "translateObject tr T t s = Some (Inr (''!'' @ alias), s)"
      by (auto simp: translateObject_not_blacklisted [OF sy] str ret_def)
  }
  {
    assume bl: "isBlackListed T (symbolAt (typeChecker T) sy) s = Some (Inr True, s1)"
    show "translateObject tr T t s = Some (Inr ''?'', s1)"
      by (simp add: translateObject_def Let_def sy ret_def
          andThen_Inr [where m = "isBlackListed T (symbolAt (typeChecker T) sy)", OF bl])
  }
qed

text \<open>
  The class \<^verbatim>\<open>Foo\<close> has the alias \<^verbatim>\<open>tsickle_import.Foo\<close> and is declared in the
  blacklisted \<^verbatim>\<open>foo.ts\<close>: the blacklist guard of \<^verbatim>\<open>translateObject\<close> answers first.
\<close>

theorem alias_is_used_counterexample:
  "symbolsToAliasedNames demoBlackListed 1 = Some ''tsickle_import.Foo'' \<and>
   symbol (typeAt (typeChecker demoBlackListed) 2) = Some 1 \<and>
   objectFlags (typeAt (typeChecker demoBlackListed) 2) = ObjectFlags_Class \<and>
   declarations (symbolAt (typeChecker demoBlackListed) 1) = Some [''foo.ts''] \<and>
   pathBlackList demoBlackListed = Some {''foo.ts''} \<and>
   translate 2 demoBlackListed 2 freshState = Some (Inr ''?'', freshState)"
  by code_simp

theorem alias_is_used_witness:
  "symbolsToAliasedNames demoAliased 1 = Some ''tsickle_import.Foo'' \<and>
   ''tsickle_import.Foo'' \<noteq> [] \<and>
   symbol (typeAt (typeChecker demoAliased) 2) = Some 1 \<and>
   isBlackListed demoAliased (symbolAt (typeChecker demoAliased) 1) freshState =
     Some (Inr False, freshState) \<and>
   objectFlags (typeAt (typeChecker demoAliased) 2) AND ObjectFlags_Class \<noteq> 0 \<and>
   symbolToString demoAliased 1 = ''tsickle_import.Foo'' \<and>
   translateObject (\<lambda>u s. None) demoAliased 2 freshState =
     Some (Inr ''!tsickle_import.Foo'', freshState) \<and>
   isBlackListed demoBlackListed (symbolAt (typeChecker demoBlackListed) 1) freshState =
     Some (Inr True, freshState) \<and>
   translateObject (\<lambda>u s. None) demoBlackListed 2 freshState = Some (Inr ''?'', freshState)"
proof -
  have a: "symbolsToAliasedNames demoAliased 1 = Some ''tsickle_import.Foo''"
    by (simp add: demoAliased_def)
  have a': "symbolsToAliasedNames demoBlackListed 1 = Some ''tsickle_import.Foo''"
    by (simp add: demoBlackListed_def)
  have ne: "''tsickle_import.Foo'' \<noteq> []"
    by simp
  have sy: "symbol (typeAt (typeChecker demoAliased) 2) = Some 1"
    by code_simp
  have sy': "symbol (typeAt (typeChecker demoBlackListed) 2) = Some 1"
    by code_simp
  have nbl: "isBlackListed demoAliased (symbolAt (typeChecker demoAliased) 1) freshState =
               Some (Inr False, freshState)"
    by code_simp
  have bl: "isBlackListed demoBlackListed (symbolAt (typeChecker demoBlackListed) 1) freshState =
              Some (Inr True, freshState)"
    by code_simp
  have cls: "objectFlags (typeAt (typeChecker demoAliased) 2) AND ObjectFlags_Class \<noteq> 0"
    by code_simp
  from alias_is_used [OF a ne sy, of freshState "\<lambda>u s. None" freshState]
    alias_is_used [OF a' ne sy', of freshState "\<lambda>u s. None" freshState]
    a ne sy nbl bl cls
  show ?thesis by simp
qed

section \<open>The order of the object flags\<close>

text \<open>
  C10. For a type whose symbol is not blacklisted, \<^verbatim>\<open>translateObject\<close> takes the branch
  of the first flag set among Class, Interface, Reference and Anonymous, whatever
  other flags are set. A type flagged Interface (and not Class) is answered by the
  Interface branch also when it is flagged Reference: the result is \<^verbatim>\<open>!\<close> and the name,
  or \<^verbatim>\<open>?\<close> with a diagnostic when the symbol is missing or is a value not declared in a
  builtin \<^verbatim>\<open>lib.d.ts\<close>; it does not depend on \<open>tr\<close>, so no type argument is rendered.
\<close>

theorem translateObject_precedence:
  assumes nbl: "\<forall>sy. symbol (typeAt (typeChecker T) t) = Some sy \<longrightarrow>
                 isBlackListed T (symbolAt (typeChecker T) sy) s = Some (Inr False, s)"
  shows
   "(objectFlags (typeAt (typeChecker T) t) AND ObjectFlags_Class \<noteq> 0 \<longrightarrow>
       translateObject tr T t s =
         (case symbol (typeAt (typeChecker T) t) of
            None \<Rightarrow> Some (Inr ''?'', s\<lparr>warnings := warnings s @ [ClassHasNoSymbol]\<rparr>)
          | Some sy \<Rightarrow> Some (Inr (''!'' @ symbolToString T sy), s))) \<and>
    (objectFlags (typeAt (typeChecker T) t) AND ObjectFlags_Class = 0 \<and>
     objectFlags (typeAt (typeChecker T) t) AND ObjectFlags_Interface \<noteq> 0 \<longrightarrow>
       translateObject tr T t s =
         (case symbol (typeAt (typeChecker T) t) of
            None \<Rightarrow> Some (Inr ''?'', s\<lparr>warnings := warnings s @ [InterfaceHasNoSymbol]\<rparr>)
          | Some sy \<Rightarrow>
              if symFlags (symbolAt (typeChecker T) sy) AND SymbolFlags_Value \<noteq> 0 \<and>
                 \<not> isClosureProvidedType (symbolAt (typeChecker T) sy)
              then Some (Inr ''?'',
                     s\<lparr>warnings := warnings s @
                        [TypeSymbolConflict (symName (symbolAt (typeChecker T) sy))]\<rparr>)
              else Some (Inr (''!'' @ symbolToString T sy), s))) \<and>
    (objectFlags (typeAt (typeChecker T) t) AND ObjectFlags_Class = 0 \<and>
     objectFlags (typeAt (typeChecker T) t) AND ObjectFlags_Interface = 0 \<and>
     objectFlags (typeAt (typeChecker T) t) AND ObjectFlags_Reference \<noteq> 0 \<longrightarrow>
       translateObject tr T t s =
         (if objectFlags (typeAt (typeChecker T) (target (typeAt (typeChecker T) t))) AND
             ObjectFlags_Tuple \<noteq> 0
          then ret ''!Array<?>''
          else if target (typeAt (typeChecker T) t) = t then throw (ReferenceLoop t)
          else
            andThen (tr (target (typeAt (typeChecker T) t))) (\<lambda>typeStr.
              case typeArguments (typeAt (typeChecker T) t) of
                None \<Rightarrow> ret typeStr
              | Some args \<Rightarrow>
                  andThen (mapM tr args) (\<lambda>params.
                    ret (typeStr @ ''<'' @ join '', '' params @ ''>'')))) s) \<and>
    (objectFlags (typeAt (typeChecker T) t) AND ObjectFlags_Class = 0 \<and>
     objectFlags (typeAt (typeChecker T) t) AND ObjectFlags_Interface = 0 \<and>
     objectFlags (typeAt (typeChecker T) t) AND ObjectFlags_Reference = 0 \<and>
     objectFlags (typeAt (typeChecker T) t) AND ObjectFlags_Anonymous \<noteq> 0 \<longrightarrow>
       translateObject tr T t s =
         (case symbol (typeAt (typeChecker T) t) of
            None \<Rightarrow> Some (Inr ''?'', s\<lparr>warnings := warnings s @ [AnonymousTypeHasNoSymbol]\<rparr>)
          | Some sy \<Rightarrow>
              if symFlags (symbolAt (typeChecker T) sy) = SymbolFlags_TypeLiteral
              then translateTypeLiteral tr T t s
              else if (symFlags (symbolAt (typeChecker T) sy) = SymbolFlags_Function \<or>
                       symFlags (symbolAt (typeChecker T) sy) = SymbolFlags_Method) \<and>
                      length (getSignaturesOfType (typeChecker T) t Call) = 1
              then signatureToClosure tr T (getSignaturesOfType (typeChecker T) t Call ! 0) s
              else Some (Inr ''?'', s\<lparr>warnings := warnings s @ [UnhandledAnonymousType]\<rparr>)))"
proof (cases "symbol (typeAt (typeChecker T) t)")
  case None
  show ?thesis
    unfolding translateObject_no_symbol [OF None] None
    by (simp add: ret_def)
next
  case (Some sy)
  with nbl have "isBlackListed T (symbolAt (typeChecker T) sy) s = Some (Inr False, s)"
    by simp
  note chain = translateObject_not_blacklisted [OF Some this]
  show ?thesis
    unfolding chain Some
    by (simp add: ret_def)
qed

text \<open>
  The generic interface \<^verbatim>\<open>Conflict\<close> is flagged Interface and Reference and is not
  blacklisted, but its name is also a variable of \<^verbatim>\<open>foo.ts\<close>: the Interface branch
  answers \<^verbatim>\<open>?\<close>, not the name.
\<close>

theorem translateObject_precedence_counterexample:
  "objectFlags (typeAt (typeChecker demoPlain) 13) =
     ObjectFlags_Interface OR ObjectFlags_Reference \<and>
   pathBlackList demoPlain = None \<and>
   typeArguments (typeAt (typeChecker demoPlain) 13) = Some [16] \<and>
   translate 2 demoPlain 13 freshState =
     Some (Inr ''?'', \<lparr>seenTypes = [], warnings = [TypeSymbolConflict ''Conflict'']\<rparr>)"
  by code_simp

theorem translateObject_precedence_witness:
  "symbol (typeAt (typeChecker demoPlain) 3) = Some 2 \<and>
   isBlackListed demoPlain (symbolAt (typeChecker demoPlain) 2) freshState =
     Some (Inr False, freshState) \<and>
   objectFlags (typeAt (typeChecker demoPlain) 3) AND ObjectFlags_Class = 0 \<and>
   objectFlags (typeAt (typeChecker demoPlain) 3) AND ObjectFlags_Interface \<noteq> 0 \<and>
   objectFlags (typeAt (typeChecker demoPlain) 3) AND ObjectFlags_Reference \<noteq> 0 \<and>
   translateObject (\<lambda>u s. None) demoPlain 3 freshState = Some (Inr ''!Array'', freshState)"
proof -
  have sy: "symbol (typeAt (typeChecker demoPlain) 3) = Some 2"
    by code_simp
  have bl: "isBlackListed demoPlain (symbolAt (typeChecker demoPlain) 2) freshState =
              Some (Inr False, freshState)"
    by code_simp
  from sy bl have nbl: "\<forall>sy. symbol (typeAt (typeChecker demoPlain) 3) = Some sy \<longrightarrow>
      isBlackListed demoPlain (symbolAt (typeChecker demoPlain) sy) freshState =
        Some (Inr False, freshState)"
    by simp
  have cls: "objectFlags (typeAt (typeChecker demoPlain) 3) AND ObjectFlags_Class = 0"
    by code_simp
  have ifc: "objectFlags (typeAt (typeChecker demoPlain) 3) AND ObjectFlags_Interface \<noteq> 0"
    by code_simp
  have ref: "objectFlags (typeAt (typeChecker demoPlain) 3) AND ObjectFlags_Reference \<noteq> 0"
    by code_simp
  have provided: "isClosureProvidedType (symbolAt (typeChecker demoPlain) 2)"
    by code_simp
  have name: "symbolToString demoPlain 2 = ''Array''"
    by code_simp
  from translateObject_precedence [OF nbl, of "\<lambda>u s. None"] sy bl cls ifc ref provided name
  show ?thesis by simp
qed

end
